theory Spec2Isabelle
  imports Main "HOL-Library.Sublist"
begin

section \<open>Go strings\<close>

text \<open>
  A Go string is a sequence of bytes; \<^typ>\<open>string\<close> (a list of 8-bit characters) is
  used for it, one \<^typ>\<open>char\<close> per byte. The \<^verbatim>\<open>strings\<close> package functions used by
  \<^verbatim>\<open>dn.go\<close> and \<^verbatim>\<open>store.go\<close> are written out below.

  \<^verbatim>\<open>strings.TrimSpace\<close> strips, at both ends, every rune for which
  \<^verbatim>\<open>unicode.IsSpace\<close> holds. Decoding a rune at the front (or at the back) of a byte string
  gives a white space rune exactly when the string starts (or ends) with the UTF-8
  encoding of that rune, so the function is modelled on bytes by the list of these
  encodings: the six ASCII ones, U+0085, U+00A0, U+1680, U+2000 to U+200A, U+2028,
  U+2029, U+202F, U+205F and U+3000.
\<close>

definition whitespace :: "string list" where
  "whitespace =
    [[CHR 0x09], [CHR 0x0A], [CHR 0x0B], [CHR 0x0C], [CHR 0x0D], [CHR 0x20],
     [CHR 0xC2, CHR 0x85], [CHR 0xC2, CHR 0xA0],
     [CHR 0xE1, CHR 0x9A, CHR 0x80],
     [CHR 0xE2, CHR 0x80, CHR 0x80], [CHR 0xE2, CHR 0x80, CHR 0x81],
     [CHR 0xE2, CHR 0x80, CHR 0x82], [CHR 0xE2, CHR 0x80, CHR 0x83],
     [CHR 0xE2, CHR 0x80, CHR 0x84], [CHR 0xE2, CHR 0x80, CHR 0x85],
     [CHR 0xE2, CHR 0x80, CHR 0x86], [CHR 0xE2, CHR 0x80, CHR 0x87],
     [CHR 0xE2, CHR 0x80, CHR 0x88], [CHR 0xE2, CHR 0x80, CHR 0x89],
     [CHR 0xE2, CHR 0x80, CHR 0x8A],
     [CHR 0xE2, CHR 0x80, CHR 0xA8], [CHR 0xE2, CHR 0x80, CHR 0xA9],
     [CHR 0xE2, CHR 0x80, CHR 0xAF],
     [CHR 0xE2, CHR 0x81, CHR 0x9F],
     [CHR 0xE3, CHR 0x80, CHR 0x80]]"

text \<open>The number of bytes of the white space rune at the front of a string, 0 when
  the string does not start with one; and the same at the back.\<close>

definition spaceAtFront :: "string \<Rightarrow> nat" where
  "spaceAtFront s = (case filter (\<lambda>r. prefix r s) whitespace of [] \<Rightarrow> 0 | r # _ \<Rightarrow> length r)"

definition spaceAtBack :: "string \<Rightarrow> nat" where
  "spaceAtBack s = (case filter (\<lambda>r. suffix r s) whitespace of [] \<Rightarrow> 0 | r # _ \<Rightarrow> length r)"

lemma whitespace_nonempty: "r \<in> set whitespace \<Longrightarrow> r \<noteq> []"
  by (auto simp: whitespace_def)

lemma spaceAtFront_le: "spaceAtFront s \<le> length s"
proof (cases "filter (\<lambda>r. prefix r s) whitespace")
  case Nil
  then show ?thesis by (simp add: spaceAtFront_def)
next
  case (Cons r rs)
  then have "r \<in> set (filter (\<lambda>r. prefix r s) whitespace)" by simp
  then have "prefix r s" by simp
  then have "length r \<le> length s" by (rule prefix_length_le)
  with Cons show ?thesis by (simp add: spaceAtFront_def)
qed

lemma spaceAtBack_le: "spaceAtBack s \<le> length s"
proof (cases "filter (\<lambda>r. suffix r s) whitespace")
  case Nil
  then show ?thesis by (simp add: spaceAtBack_def)
next
  case (Cons r rs)
  then have "r \<in> set (filter (\<lambda>r. suffix r s) whitespace)" by simp
  then have "suffix r s" by simp
  then have "length r \<le> length s" by (rule suffix_length_le)
  with Cons show ?thesis by (simp add: spaceAtBack_def)
qed

function TrimLeft :: "string \<Rightarrow> string" where
  "TrimLeft s = (if spaceAtFront s = 0 then s else TrimLeft (drop (spaceAtFront s) s))"
  by pat_completeness auto
termination
proof (relation "measure length")
  show "wf (measure length)" by simp
next
  fix s :: string
  assume "spaceAtFront s \<noteq> 0"
  moreover have "spaceAtFront s \<le> length s" by (rule spaceAtFront_le)
  ultimately show "(drop (spaceAtFront s) s, s) \<in> measure length" by simp
qed

function TrimRight :: "string \<Rightarrow> string" where
  "TrimRight s =
     (if spaceAtBack s = 0 then s else TrimRight (take (length s - spaceAtBack s) s))"
  by pat_completeness auto
termination
proof (relation "measure length")
  show "wf (measure length)" by simp
next
  fix s :: string
  assume "spaceAtBack s \<noteq> 0"
  moreover have "spaceAtBack s \<le> length s" by (rule spaceAtBack_le)
  ultimately show "(take (length s - spaceAtBack s) s, s) \<in> measure length" by simp
qed

declare TrimLeft.simps [simp del]
declare TrimRight.simps [simp del]

definition TrimSpace :: "string \<Rightarrow> string" where
  "TrimSpace s = TrimRight (TrimLeft s)"

text \<open>\<^verbatim>\<open>strings.Split(s, ",")\<close> for a one-byte separator: the pieces between the
  separators, one more than there are separators.\<close>

fun Split :: "string \<Rightarrow> char \<Rightarrow> string list" where
  "Split [] sep = [[]]"
| "Split (c # cs) sep =
     (if c = sep then [] # Split cs sep
      else (case Split cs sep of [] \<Rightarrow> [[c]] | p # ps \<Rightarrow> (c # p) # ps))"

text \<open>\<^verbatim>\<open>strings.Index(s, "=")\<close> for a one-byte pattern: the first position, or -1.\<close>

fun Index :: "string \<Rightarrow> char \<Rightarrow> int" where
  "Index [] b = -1"
| "Index (c # cs) b = (if c = b then 0 else (let i = Index cs b in if i < 0 then -1 else i + 1))"

fun Join :: "string list \<Rightarrow> string \<Rightarrow> string" where
  "Join [] sep = []"
| "Join [p] sep = p"
| "Join (p # q # ps) sep = p @ sep @ Join (q # ps) sep"

text \<open>
  \<^verbatim>\<open>strings.ToUpper\<close>. On ASCII bytes it maps \<^verbatim>\<open>a\<close>..\<^verbatim>\<open>z\<close> to \<^verbatim>\<open>A\<close>..\<^verbatim>\<open>Z\<close>. The
  source compares the result only with ASCII labels; of the runes beyond ASCII, the
  Unicode tables map U+017F to \<^verbatim>\<open>S\<close> and U+0131 to \<^verbatim>\<open>I\<close> and no other one into
  ASCII, so these two encodings are mapped and every other byte beyond ASCII is kept.
\<close>

definition upperASCII :: "char \<Rightarrow> char" where
  "upperASCII c =
     (case map_of (zip ''abcdefghijklmnopqrstuvwxyz'' ''ABCDEFGHIJKLMNOPQRSTUVWXYZ'') c of
        None \<Rightarrow> c | Some u \<Rightarrow> u)"

fun ToUpper :: "string \<Rightarrow> string" where
  "ToUpper [] = []"
| "ToUpper [c] = [upperASCII c]"
| "ToUpper (c # d # cs) =
     (if c = CHR 0xC5 \<and> d = CHR 0xBF then CHR ''S'' # ToUpper cs
      else if c = CHR 0xC4 \<and> d = CHR 0xB1 then CHR ''I'' # ToUpper cs
      else upperASCII c # ToUpper (d # cs))"

section \<open>Distinguished names (dn.go)\<close>

text \<open>The fields of \<^verbatim>\<open>pkix.Name\<close> that \<^verbatim>\<open>ParseDN\<close> and \<^verbatim>\<open>FormatDN\<close> read or write.
  A nil slice and an empty slice are both the empty list.\<close>

record Name =
  CommonName :: string
  Organization :: "string list"
  OrganizationalUnit :: "string list"
  Locality :: "string list"
  Province :: "string list"
  Country :: "string list"

definition emptyName :: Name where
  "emptyName = \<lparr>CommonName = [], Organization = [], OrganizationalUnit = [],
                 Locality = [], Province = [], Country = []\<rparr>"

text \<open>The errors of \<^verbatim>\<open>ParseDN\<close>, each with the argument of its message.\<close>

datatype dn_error =
    EmptyDN
  | MissingEquals string
  | EmptyValue string
  | UnknownAttribute string

text \<open>The loop of \<^verbatim>\<open>ParseDN\<close> over the components.\<close>

fun parseParts :: "Name \<Rightarrow> string list \<Rightarrow> dn_error + Name" where
  "parseParts name [] = Inr name"
| "parseParts name (p # ps) =
     (let part = TrimSpace p in
      if part = [] then parseParts name ps
      else
        let idx = Index part (CHR ''='') in
        if idx < 0 then Inl (MissingEquals part)
        else
          let attrType = TrimSpace (take (nat idx) part);
              attrValue = TrimSpace (drop (nat idx + 1) part) in
          if attrValue = [] then Inl (EmptyValue attrType)
          else
            let u = ToUpper attrType in
            if u = ''CN'' then parseParts (name\<lparr>CommonName := attrValue\<rparr>) ps
            else if u = ''O'' then
              parseParts (name\<lparr>Organization := Organization name @ [attrValue]\<rparr>) ps
            else if u = ''OU'' then
              parseParts
                (name\<lparr>OrganizationalUnit := OrganizationalUnit name @ [attrValue]\<rparr>) ps
            else if u = ''L'' then
              parseParts (name\<lparr>Locality := Locality name @ [attrValue]\<rparr>) ps
            else if u = ''ST'' then
              parseParts (name\<lparr>Province := Province name @ [attrValue]\<rparr>) ps
            else if u = ''C'' then
              parseParts (name\<lparr>Country := Country name @ [attrValue]\<rparr>) ps
            else Inl (UnknownAttribute attrType))"

definition ParseDN :: "string \<Rightarrow> dn_error + Name" where
  "ParseDN dn =
     (if TrimSpace dn = [] then Inl EmptyDN
      else parseParts emptyName (Split dn (CHR '','')))"

definition FormatDN :: "Name \<Rightarrow> string" where
  "FormatDN name =
     Join ((if CommonName name \<noteq> [] then [''CN='' @ CommonName name] else [])
           @ map (\<lambda>o'. ''O='' @ o') (Organization name)
           @ map (\<lambda>ou. ''OU='' @ ou) (OrganizationalUnit name)
           @ map (\<lambda>l. ''L='' @ l) (Locality name)
           @ map (\<lambda>st. ''ST='' @ st) (Province name)
           @ map (\<lambda>c. ''C='' @ c) (Country name)) '',''"


section \<open>Counters and serial numbers (store.go)\<close>

text \<open>Go's \<^verbatim>\<open>int64\<close>: the integers from \<open>-2^63\<close> to \<open>2^63 - 1\<close>; arithmetic wraps.\<close>

definition int64 :: "int \<Rightarrow> int" where
  "int64 x = (x + 2 ^ 63) mod 2 ^ 64 - 2 ^ 63"

definition hexDigit :: "nat \<Rightarrow> char" where
  "hexDigit d = ''0123456789abcdef'' ! (d mod 16)"

text \<open>The lowercase hexadecimal digits of a natural number, without padding.\<close>

function hex :: "nat \<Rightarrow> string" where
  "hex n = (if n < 16 then [hexDigit n] else hex (n div 16) @ [hexDigit (n mod 16)])"
  by pat_completeness auto
termination
  by (relation "measure id") auto

declare hex.simps [simp del]

text \<open>\<^verbatim>\<open>fmt.Sprintf("%02x", n)\<close> for an \<^verbatim>\<open>int64\<close>: at least two digits for a value that
  is not negative; a negative value is printed with its sign, and the sign counts for
  the width.\<close>

definition FormatSerial :: "int \<Rightarrow> string" where
  "FormatSerial n =
     (if n < 0 then CHR ''-'' # hex (nat (- n))
      else if n < 16 then CHR ''0'' # hex (nat n) else hex (nat n))"

text \<open>\<^verbatim>\<open>FormatSerialBig\<close>: \<^verbatim>\<open>strings.ToLower(n.Text(16))\<close>, padded on the left when shorter
  than two bytes.\<close>

definition FormatSerialBig :: "int \<Rightarrow> string" where
  "FormatSerialBig n =
     (let s = (if n < 0 then CHR ''-'' # hex (nat (- n)) else hex (nat n))
      in if length s < 2 then CHR ''0'' # s else s)"

definition hexVal :: "char \<Rightarrow> nat option" where
  "hexVal c =
     map_of
       [(CHR ''0'', 0), (CHR ''1'', 1), (CHR ''2'', 2), (CHR ''3'', 3), (CHR ''4'', 4),
        (CHR ''5'', 5), (CHR ''6'', 6), (CHR ''7'', 7), (CHR ''8'', 8), (CHR ''9'', 9),
        (CHR ''a'', 10), (CHR ''b'', 11), (CHR ''c'', 12), (CHR ''d'', 13),
        (CHR ''e'', 14), (CHR ''f'', 15),
        (CHR ''A'', 10), (CHR ''B'', 11), (CHR ''C'', 12), (CHR ''D'', 13),
        (CHR ''E'', 14), (CHR ''F'', 15)] c"

fun parseUintHex :: "nat \<Rightarrow> string \<Rightarrow> nat option" where
  "parseUintHex acc [] = Some acc"
| "parseUintHex acc (c # cs) =
     (case hexVal c of None \<Rightarrow> None | Some d \<Rightarrow> parseUintHex (16 * acc + d) cs)"

text \<open>\<^verbatim>\<open>strconv.ParseInt(s, 16, 64)\<close>: an optional sign, then at least one hexadecimal
  digit in either case and nothing else; \<open>None\<close> is a syntax or a range error.\<close>

definition ParseInt16 :: "string \<Rightarrow> int option" where
  "ParseInt16 s =
     (case s of
        [] \<Rightarrow> None
      | c # cs \<Rightarrow>
          let neg = (c = CHR ''-'');
              digits = (if c = CHR ''+'' \<or> c = CHR ''-'' then cs else s) in
          if digits = [] then None
          else (case parseUintHex 0 digits of
                  None \<Rightarrow> None
                | Some un \<Rightarrow>
                    if \<not> neg \<and> un \<ge> 2 ^ 63 then None
                    else if neg \<and> un > 2 ^ 63 then None
                    else Some (if neg then - int un else int un)))"

section \<open>Keys, certificates and the other artefacts\<close>

text \<open>
  The cryptographic libraries are outside the repository. Keys carry their algorithm,
  the parameter the code inspects (curve, modulus length) and a number that stands for
  the key material; a signature is the public key under which it verifies.
\<close>

datatype curve = P224 | P256 | P384 | P521

datatype public_key =
    ECDSAPublicKey curve nat
  | RSAPublicKey nat nat
  | Ed25519PublicKey nat

datatype private_key =
    ECDSAPrivateKey curve nat
  | RSAPrivateKey nat nat
  | Ed25519PrivateKey nat

datatype signature_algorithm = ECDSAWithSHA256 | SHA256WithRSA | UnknownSignatureAlgorithm

datatype key_usage = KeyUsageDigitalSignature | KeyUsageKeyEncipherment
  | KeyUsageCertSign | KeyUsageCRLSign

record Certificate =
  cert_SerialNumber :: int
  cert_Subject :: Name
  cert_Issuer :: Name
  cert_NotBefore :: int
  cert_NotAfter :: int
  cert_KeyUsage :: "key_usage set"
  cert_BasicConstraintsValid :: bool
  cert_IsCA :: bool
  cert_SubjectKeyId :: "public_key option"
  cert_AuthorityKeyId :: "public_key option"
  cert_DNSNames :: "string list"
  cert_IPAddresses :: "string list"
  cert_EmailAddresses :: "string list"
  cert_SignatureAlgorithm :: signature_algorithm
  cert_PublicKey :: "public_key option"
  cert_Signature :: "public_key option"

record CertificateRequest =
  csr_Subject :: Name
  csr_PublicKey :: "public_key option"
  csr_DNSNames :: "string list"
  csr_IPAddresses :: "string list"
  csr_EmailAddresses :: "string list"
  csr_Signature :: "public_key option"

record RevocationListEntry =
  rle_SerialNumber :: int
  rle_RevocationTime :: int
  rle_ReasonCode :: int

record RevocationList =
  crl_RevokedCertificateEntries :: "RevocationListEntry list"
  crl_Number :: int
  crl_ThisUpdate :: int
  crl_NextUpdate :: int
  crl_AuthorityKeyId :: "public_key option"
  crl_Signature :: "public_key option"

text \<open>\<^verbatim>\<open>IndexEntry\<close>, the record of \<^verbatim>\<open>index.json\<close>: seven strings.\<close>

record IndexEntry =
  Serial :: string
  Subject :: string
  NotBefore :: string
  NotAfter :: string
  Status :: string
  RevokedAt :: string
  RevocationReason :: string


section \<open>The file system and the environment\<close>

text \<open>
  A path is the string the code passes to the \<^verbatim>\<open>os\<close> package. The data directory is
  taken to be a clean path, so that \<^verbatim>\<open>filepath.Join\<close> is concatenation with a slash.
\<close>

type_synonym path = string

definition filepathJoin :: "path \<Rightarrow> string \<Rightarrow> path" where
  "filepathJoin dir name = dir @ ''/'' @ name"

text \<open>
  The bytes of a file are kept decoded: a PEM block is its type label and the DER
  structure inside, the JSON of \<^verbatim>\<open>index.json\<close> is the list of entries it encodes, and
  \<open>Bytes\<close> is every other text. \<^verbatim>\<open>pem.Decode\<close>, the \<^verbatim>\<open>x509.Parse...\<close> functions and
  \<^verbatim>\<open>json.Unmarshal\<close> are then case distinctions.
\<close>

datatype der =
    DERPrivateKey private_key
  | DERCertificate Certificate
  | DERRequest CertificateRequest
  | DERRevocationList RevocationList
  | DERGarbage

datatype content =
    Bytes string
  | PEM string der
  | JSONIndex "IndexEntry list"

text \<open>The operations that can be refused by the system or fail in a library, whatever
  the reason (permissions, a full disk, a missing parent directory, no entropy).\<close>

datatype ioop =
    OpRead path
  | OpWrite path
  | OpRename path path
  | OpMkdirAll path
  | OpGenerateKey
  | OpCreateCertificate
  | OpCreateRevocationList

text \<open>Go errors: a complete message made by \<^verbatim>\<open>fmt.Errorf\<close>, a message wrapping another
  error with \<^verbatim>\<open>": %w"\<close>, an error of the \<^verbatim>\<open>os\<close> package, an error of a library.\<close>

datatype error =
    Errorf string
  | Wrapped string error
  | SysError ioop
  | LibError string

record world =
  files :: "path \<Rightarrow> content option"
  dirs :: "path set"
  faults :: "ioop set"

text \<open>What an operation reads from outside the data directory: the clock (nanoseconds
  since the zero \<^verbatim>\<open>time.Time\<close>), the RFC 3339 formatter and parser of the \<^verbatim>\<open>time\<close>
  package, and the random source.\<close>

record env =
  now :: int
  formatRFC3339 :: "int \<Rightarrow> string"
  parseRFC3339 :: "string \<Rightarrow> int option"
  entropy :: nat

definition zeroTime :: int where
  "zeroTime = 0"

text \<open>\<^verbatim>\<open>os.Stat\<close> returns no error.\<close>

definition Stat :: "world \<Rightarrow> path \<Rightarrow> bool" where
  "Stat w p = (files w p \<noteq> None \<or> p \<in> dirs w)"

definition ReadFile :: "world \<Rightarrow> path \<Rightarrow> error + content" where
  "ReadFile w p =
     (if OpRead p \<in> faults w then Inl (SysError (OpRead p))
      else (case files w p of None \<Rightarrow> Inl (SysError (OpRead p)) | Some data \<Rightarrow> Inr data))"

text \<open>A write that fails is taken to leave nothing behind; every caller removes the
  file it tried to write.\<close>

definition WriteFile :: "world \<Rightarrow> path \<Rightarrow> content \<Rightarrow> error option \<times> world" where
  "WriteFile w p data =
     (if OpWrite p \<in> faults w \<or> p \<in> dirs w then (Some (SysError (OpWrite p)), w)
      else (None, w\<lparr>files := (files w)(p \<mapsto> data)\<rparr>))"

definition Rename :: "world \<Rightarrow> path \<Rightarrow> path \<Rightarrow> error option \<times> world" where
  "Rename w old new =
     (if OpRename old new \<in> faults w \<or> new \<in> dirs w then (Some (SysError (OpRename old new)), w)
      else (case files w old of
              None \<Rightarrow> (Some (SysError (OpRename old new)), w)
            | Some data \<Rightarrow> (None, w\<lparr>files := (files w)(old := None, new \<mapsto> data)\<rparr>)))"

text \<open>\<^verbatim>\<open>os.Remove\<close> with its error ignored, as every call in the source does.\<close>

definition Remove :: "world \<Rightarrow> path \<Rightarrow> world" where
  "Remove w p = w\<lparr>files := (files w)(p := None)\<rparr>"

fun cleanupTempFiles :: "world \<Rightarrow> path list \<Rightarrow> world" where
  "cleanupTempFiles w [] = w"
| "cleanupTempFiles w (p # paths) = cleanupTempFiles (Remove w p) paths"

definition writeFileAtomic :: "world \<Rightarrow> path \<Rightarrow> content \<Rightarrow> error option \<times> world" where
  "writeFileAtomic w p data =
     (let tmpPath = p @ ''.tmp'' in
      case WriteFile w tmpPath data of
        (Some e, w1) \<Rightarrow> (Some (Wrapped (''failed to write '' @ p) e), Remove w1 tmpPath)
      | (None, w1) \<Rightarrow>
          (case Rename w1 tmpPath p of
             (Some e, w2) \<Rightarrow> (Some (Wrapped (''failed to rename '' @ p) e), Remove w2 tmpPath)
           | (None, w2) \<Rightarrow> (None, w2)))"

text \<open>The commit loop of \<^verbatim>\<open>InitCA\<close>, \<^verbatim>\<open>SignCSR\<close> and \<^verbatim>\<open>GenerateCRL\<close>: rename each pair
  in order; at the first failure clean up and return.\<close>

fun commitRenames :: "world \<Rightarrow> path list \<Rightarrow> (path \<times> path) list \<Rightarrow> error option \<times> world" where
  "commitRenames w tmpPaths [] = (None, w)"
| "commitRenames w tmpPaths ((tmp, final) # cs) =
     (case Rename w tmp final of
        (Some e, w1) \<Rightarrow>
          (Some (Wrapped (''failed to commit '' @ final) e), cleanupTempFiles w1 tmpPaths)
      | (None, w1) \<Rightarrow> commitRenames w1 tmpPaths cs)"

subsection \<open>store.go\<close>

definition InitDataDir :: "world \<Rightarrow> path \<Rightarrow> error option \<times> world" where
  "InitDataDir w dataDir =
     (let certsDir = filepathJoin dataDir ''certs'' in
      if OpMkdirAll certsDir \<in> faults w \<or> files w dataDir \<noteq> None \<or> files w certsDir \<noteq> None
      then (Some (Wrapped ''failed to create certs directory'' (SysError (OpMkdirAll certsDir))), w)
      else (None, w\<lparr>dirs := dirs w \<union> {dataDir, certsDir}\<rparr>))"

definition IsInitialized :: "world \<Rightarrow> path \<Rightarrow> bool" where
  "IsInitialized w dataDir =
     (let keyPath = filepathJoin dataDir ''ca.key'';
          certPath = filepathJoin dataDir ''ca.crt'' in
      Stat w keyPath \<and> Stat w certPath)"

definition pemDecode :: "content \<Rightarrow> (string \<times> der) option" where
  "pemDecode data = (case data of PEM t body \<Rightarrow> Some (t, body) | _ \<Rightarrow> None)"

definition LoadPrivateKey :: "world \<Rightarrow> path \<Rightarrow> error + private_key" where
  "LoadPrivateKey w p =
     (case ReadFile w p of
        Inl e \<Rightarrow> Inl (Wrapped ''failed to read private key'' e)
      | Inr data \<Rightarrow>
          (case pemDecode data of
             None \<Rightarrow> Inl (Errorf (''failed to decode PEM block from '' @ p))
           | Some (t, body) \<Rightarrow>
               (case body of
                  DERPrivateKey key \<Rightarrow> Inr key
                | _ \<Rightarrow> Inl (Wrapped ''failed to parse private key'' (LibError ''x509'')))))"

definition LoadCertificate :: "world \<Rightarrow> path \<Rightarrow> error + Certificate" where
  "LoadCertificate w p =
     (case ReadFile w p of
        Inl e \<Rightarrow> Inl (Wrapped ''failed to read certificate'' e)
      | Inr data \<Rightarrow>
          (case pemDecode data of
             None \<Rightarrow> Inl (Errorf (''failed to decode PEM block from '' @ p))
           | Some (t, body) \<Rightarrow>
               (case body of
                  DERCertificate cert \<Rightarrow> Inr cert
                | _ \<Rightarrow> Inl (Wrapped ''failed to parse certificate'' (LibError ''x509'')))))"

definition LoadCRL :: "world \<Rightarrow> path \<Rightarrow> error + RevocationList" where
  "LoadCRL w p =
     (case ReadFile w p of
        Inl e \<Rightarrow> Inl (Wrapped ''failed to read CRL'' e)
      | Inr data \<Rightarrow>
          (case pemDecode data of
             None \<Rightarrow> Inl (Errorf (''failed to decode PEM block from '' @ p))
           | Some (t, body) \<Rightarrow>
               (case body of
                  DERRevocationList crl \<Rightarrow> Inr crl
                | _ \<Rightarrow> Inl (Wrapped ''failed to parse CRL'' (LibError ''x509'')))))"

definition ReadCounter :: "world \<Rightarrow> path \<Rightarrow> error + int" where
  "ReadCounter w p =
     (case ReadFile w p of
        Inl e \<Rightarrow> Inl (Wrapped (''failed to read counter from '' @ p) e)
      | Inr data \<Rightarrow>
          (case data of
             Bytes text \<Rightarrow>
               (case ParseInt16 (TrimSpace text) of
                  None \<Rightarrow> Inl (Wrapped ''failed to parse counter value'' (LibError ''strconv''))
                | Some val \<Rightarrow> Inr val)
           | _ \<Rightarrow> Inl (Wrapped ''failed to parse counter value'' (LibError ''strconv''))))"

definition LoadIndex :: "world \<Rightarrow> path \<Rightarrow> error + IndexEntry list" where
  "LoadIndex w dataDir =
     (let p = filepathJoin dataDir ''index.json'' in
      case ReadFile w p of
        Inl e \<Rightarrow> Inl (Wrapped ''failed to read index'' e)
      | Inr data \<Rightarrow>
          (case data of
             JSONIndex entries \<Rightarrow> Inr entries
           | _ \<Rightarrow> Inl (Wrapped ''failed to parse index'' (LibError ''json''))))"

definition SaveIndex :: "world \<Rightarrow> path \<Rightarrow> IndexEntry list \<Rightarrow> error option \<times> world" where
  "SaveIndex w dataDir entries =
     (let p = filepathJoin dataDir ''index.json'' in
      writeFileAtomic w p (JSONIndex entries))"


section \<open>The CA operations (ca.go)\<close>

record InitResult =
  ir_Subject :: string
  ir_Algorithm :: string
  ir_Serial :: string
  ir_NotAfter :: int
  ir_CertPath :: path
  ir_KeyPath :: path

record SignResult =
  sr_Serial :: string
  sr_Subject :: string
  sr_NotAfter :: int
  sr_CertPath :: path

record CertInfo =
  ci_Serial :: string
  ci_Subject :: string
  ci_NotAfter :: int
  ci_Status :: string

definition AlgoDisplayName :: "string \<Rightarrow> string" where
  "AlgoDisplayName keyAlgo =
     (if keyAlgo = ''ecdsa-p256'' then ''ECDSA P-256''
      else if keyAlgo = ''rsa-2048'' then ''RSA 2048''
      else keyAlgo)"

definition generateKeyPair :: "env \<Rightarrow> world \<Rightarrow> string \<Rightarrow> error + private_key" where
  "generateKeyPair ev w keyAlgo =
     (if keyAlgo = ''ecdsa-p256'' then
        (if OpGenerateKey \<in> faults w then Inl (LibError ''ecdsa'')
         else Inr (ECDSAPrivateKey P256 (entropy ev)))
      else if keyAlgo = ''rsa-2048'' then
        (if OpGenerateKey \<in> faults w then Inl (LibError ''rsa'')
         else Inr (RSAPrivateKey 2048 (entropy ev)))
      else Inl (Errorf (''unsupported key algorithm: '' @ keyAlgo)))"

text \<open>\<^verbatim>\<open>computeSKI\<close> with \<^verbatim>\<open>publicKeyBytes\<close>: the SHA-1 hash of the encoded key stands for
  the key itself.\<close>

definition computeSKI :: "public_key option \<Rightarrow> error + public_key option" where
  "computeSKI pub =
     (case pub of
        Some (ECDSAPublicKey c k) \<Rightarrow> Inr (Some (ECDSAPublicKey c k))
      | Some (RSAPublicKey b k) \<Rightarrow> Inr (Some (RSAPublicKey b k))
      | _ \<Rightarrow> Inl (Errorf ''unsupported public key type''))"

definition sigAlgorithm :: "private_key \<Rightarrow> signature_algorithm" where
  "sigAlgorithm key =
     (case key of
        ECDSAPrivateKey c k \<Rightarrow> ECDSAWithSHA256
      | RSAPrivateKey b k \<Rightarrow> SHA256WithRSA
      | _ \<Rightarrow> UnknownSignatureAlgorithm)"

definition publicKey :: "private_key \<Rightarrow> public_key option" where
  "publicKey key =
     (case key of
        ECDSAPrivateKey c k \<Rightarrow> Some (ECDSAPublicKey c k)
      | RSAPrivateKey b k \<Rightarrow> Some (RSAPublicKey b k)
      | _ \<Rightarrow> None)"

text \<open>The public half of any private key, as the signing functions of the library see
  it.\<close>

definition signerOf :: "private_key \<Rightarrow> public_key" where
  "signerOf key =
     (case key of
        ECDSAPrivateKey c k \<Rightarrow> ECDSAPublicKey c k
      | RSAPrivateKey b k \<Rightarrow> RSAPublicKey b k
      | Ed25519PrivateKey k \<Rightarrow> Ed25519PublicKey k)"

text \<open>\<^verbatim>\<open>now.Add(time.Duration(validityDays) * 24 * time.Hour)\<close>; a duration is an
  \<^verbatim>\<open>int64\<close> of nanoseconds.\<close>

definition addDays :: "int \<Rightarrow> int \<Rightarrow> int" where
  "addDays t validityDays = t + int64 (validityDays * 24 * 3600000000000)"

definition truncateToSecond :: "int \<Rightarrow> int" where
  "truncateToSecond t = t - t mod 1000000000"

text \<open>\<^verbatim>\<open>x509.CreateCertificate\<close>: the certificate carries the template's fields, the
  parent's subject as issuer, the given public key and a signature of the given private
  key; its times are encoded to the second.\<close>

definition CreateCertificate ::
  "world \<Rightarrow> Certificate \<Rightarrow> Certificate \<Rightarrow> public_key option \<Rightarrow> private_key \<Rightarrow> error + der" where
  "CreateCertificate w template parent pub priv =
     (if OpCreateCertificate \<in> faults w then Inl (LibError ''x509'')
      else Inr (DERCertificate
             (template\<lparr>cert_Issuer := cert_Subject parent,
                       cert_NotBefore := truncateToSecond (cert_NotBefore template),
                       cert_NotAfter := truncateToSecond (cert_NotAfter template),
                       cert_PublicKey := pub,
                       cert_Signature := Some (signerOf priv)\<rparr>)))"

subsection \<open>InitCA\<close>

definition InitCA_tmpPaths :: "path \<Rightarrow> path list" where
  "InitCA_tmpPaths dataDir =
     [filepathJoin dataDir ''ca.key'' @ ''.tmp'',
      filepathJoin dataDir ''ca.crt'' @ ''.tmp'',
      filepathJoin dataDir ''serial'' @ ''.tmp'',
      filepathJoin dataDir ''crlnumber'' @ ''.tmp'',
      filepathJoin dataDir ''index.json'' @ ''.tmp'']"

text \<open>The stage sub-phase: five writes, each followed by the cleanup when it fails.\<close>

definition InitCA_stage ::
  "world \<Rightarrow> path \<Rightarrow> content \<Rightarrow> content \<Rightarrow> content \<Rightarrow> content \<Rightarrow> content
     \<Rightarrow> error option \<times> world" where
  "InitCA_stage w dataDir keyPEM certPEM serialData crlnumData indexData =
     (let keyPath = filepathJoin dataDir ''ca.key'';
          certPath = filepathJoin dataDir ''ca.crt'';
          serialPath = filepathJoin dataDir ''serial'';
          crlnumPath = filepathJoin dataDir ''crlnumber'';
          indexPath = filepathJoin dataDir ''index.json'';
          tmpPaths = InitCA_tmpPaths dataDir in
      (case WriteFile w (keyPath @ ''.tmp'') keyPEM of
        (Some e, w1) \<Rightarrow> (Some (Wrapped ''failed to write CA key'' e), cleanupTempFiles w1 tmpPaths)
      | (None, w1) \<Rightarrow>
      (case WriteFile w1 (certPath @ ''.tmp'') certPEM of
        (Some e, w2) \<Rightarrow>
          (Some (Wrapped ''failed to write CA certificate'' e), cleanupTempFiles w2 tmpPaths)
      | (None, w2) \<Rightarrow>
      (case WriteFile w2 (serialPath @ ''.tmp'') serialData of
        (Some e, w3) \<Rightarrow> (Some (Wrapped ''failed to write serial'' e), cleanupTempFiles w3 tmpPaths)
      | (None, w3) \<Rightarrow>
      (case WriteFile w3 (crlnumPath @ ''.tmp'') crlnumData of
        (Some e, w4) \<Rightarrow> (Some (Wrapped ''failed to write crlnumber'' e), cleanupTempFiles w4 tmpPaths)
      | (None, w4) \<Rightarrow>
      (case WriteFile w4 (indexPath @ ''.tmp'') indexData of
        (Some e, w5) \<Rightarrow> (Some (Wrapped ''failed to write index'' e), cleanupTempFiles w5 tmpPaths)
      | (None, w5) \<Rightarrow> (None, w5)))))))"

text \<open>The \<^verbatim>\<open>commitOrder\<close> slice of \<^verbatim>\<open>InitCA\<close>, in the order of the source.\<close>

definition InitCA_commitOrder :: "path \<Rightarrow> (path \<times> path) list" where
  "InitCA_commitOrder dataDir =
     (let keyPath = filepathJoin dataDir ''ca.key'';
          certPath = filepathJoin dataDir ''ca.crt'';
          serialPath = filepathJoin dataDir ''serial'';
          crlnumPath = filepathJoin dataDir ''crlnumber'';
          indexPath = filepathJoin dataDir ''index.json'' in
      [(keyPath @ ''.tmp'', keyPath),
       (certPath @ ''.tmp'', certPath),
       (serialPath @ ''.tmp'', serialPath),
       (crlnumPath @ ''.tmp'', crlnumPath),
       (indexPath @ ''.tmp'', indexPath)])"

text \<open>\<^verbatim>\<open>x509.MarshalPKCS8PrivateKey\<close> does not fail on a key that \<^verbatim>\<open>generateKeyPair\<close>
  made, so that branch of the source has no counterpart.\<close>

definition InitCA ::
  "env \<Rightarrow> world \<Rightarrow> path \<Rightarrow> Name \<Rightarrow> string \<Rightarrow> int \<Rightarrow> (error + InitResult) \<times> world" where
  "InitCA ev w dataDir subject keyAlgo validityDays =
     (if IsInitialized w dataDir then
        (Inl (Errorf (''Error: CA already initialized at '' @ dataDir)), w)
      else
      (case generateKeyPair ev w keyAlgo of
        Inl e \<Rightarrow> (Inl (Wrapped ''failed to generate key pair'' e), w)
      | Inr privKey \<Rightarrow>
      let pub = publicKey privKey in
      (case computeSKI pub of
        Inl e \<Rightarrow> (Inl (Wrapped ''failed to compute subject key identifier'' e), w)
      | Inr ski \<Rightarrow>
      let notAfter = addDays (now ev) validityDays;
          template =
            \<lparr>cert_SerialNumber = 1, cert_Subject = subject, cert_Issuer = emptyName,
             cert_NotBefore = now ev, cert_NotAfter = notAfter,
             cert_KeyUsage = {KeyUsageCertSign, KeyUsageCRLSign},
             cert_BasicConstraintsValid = True, cert_IsCA = True,
             cert_SubjectKeyId = ski, cert_AuthorityKeyId = None,
             cert_DNSNames = [], cert_IPAddresses = [], cert_EmailAddresses = [],
             cert_SignatureAlgorithm = sigAlgorithm privKey,
             cert_PublicKey = None, cert_Signature = None\<rparr> in
      (case CreateCertificate w template template pub privKey of
        Inl e \<Rightarrow> (Inl (Wrapped ''failed to create certificate'' e), w)
      | Inr certDER \<Rightarrow>
      (case InitDataDir w dataDir of
        (Some e, w1) \<Rightarrow> (Inl e, w1)
      | (None, w1) \<Rightarrow>
      let keyPath = filepathJoin dataDir ''ca.key'';
          certPath = filepathJoin dataDir ''ca.crt'';
          serialData = FormatSerial 2 @ [CHR 0x0A];
          crlnumData = FormatSerial 1 @ [CHR 0x0A];
          keyPEM = PEM ''PRIVATE KEY'' (DERPrivateKey privKey);
          certPEM = PEM ''CERTIFICATE'' certDER in
      (case InitCA_stage w1 dataDir keyPEM certPEM (Bytes serialData) (Bytes crlnumData)
             (JSONIndex []) of
        (Some e, w2) \<Rightarrow> (Inl e, w2)
      | (None, w2) \<Rightarrow>
      (case commitRenames w2 (InitCA_tmpPaths dataDir) (InitCA_commitOrder dataDir) of
        (Some e, w3) \<Rightarrow> (Inl e, w3)
      | (None, w3) \<Rightarrow>
          (Inr \<lparr>ir_Subject = FormatDN subject, ir_Algorithm = AlgoDisplayName keyAlgo,
                ir_Serial = FormatSerial 1, ir_NotAfter = notAfter,
                ir_CertPath = certPath, ir_KeyPath = keyPath\<rparr>, w3))))))))"


subsection \<open>SignCSR\<close>

definition notInitializedMessage :: string where
  "notInitializedMessage =
     ''Error: CA not initialized. Run '' @ [CHR 0x27] @ ''ca init'' @ [CHR 0x27] @ '' first.''"

definition unsupportedKeyMessage :: string where
  "unsupportedKeyMessage =
     ''Error: unsupported key algorithm in CSR. Supported: ECDSA P-256, RSA 2048''"

text \<open>\<^verbatim>\<open>csr.CheckSignature()\<close> returns no error: the signature verifies under the
  public key of the request itself.\<close>

definition CheckSignature :: "CertificateRequest \<Rightarrow> bool" where
  "CheckSignature csr = (csr_PublicKey csr \<noteq> None \<and> csr_Signature csr = csr_PublicKey csr)"

text \<open>The type switch on \<^verbatim>\<open>csr.PublicKey\<close>; \<open>None\<close> when it falls through.\<close>

definition checkKeyAlgorithm :: "public_key option \<Rightarrow> error option" where
  "checkKeyAlgorithm pub =
     (case pub of
        Some (ECDSAPublicKey c k) \<Rightarrow>
          if c \<noteq> P256 then Some (Errorf unsupportedKeyMessage) else None
      | Some (RSAPublicKey bits k) \<Rightarrow>
          if bits \<noteq> 2048 then Some (Errorf unsupportedKeyMessage) else None
      | _ \<Rightarrow> Some (Errorf unsupportedKeyMessage))"

definition isRSA :: "public_key option \<Rightarrow> bool" where
  "isRSA pub = (case pub of Some (RSAPublicKey bits k) \<Rightarrow> True | _ \<Rightarrow> False)"

definition SignCSR_tmpPaths :: "path \<Rightarrow> path \<Rightarrow> path list" where
  "SignCSR_tmpPaths dataDir certFilePath =
     [filepathJoin dataDir ''serial'' @ ''.tmp'',
      certFilePath @ ''.tmp'',
      filepathJoin dataDir ''index.json'' @ ''.tmp'']"

definition SignCSR_stage ::
  "world \<Rightarrow> path \<Rightarrow> path \<Rightarrow> content \<Rightarrow> content \<Rightarrow> content \<Rightarrow> error option \<times> world" where
  "SignCSR_stage w dataDir certFilePath newSerialData certPEMData indexData =
     (let serialPath = filepathJoin dataDir ''serial'';
          tmpPaths = SignCSR_tmpPaths dataDir certFilePath in
      (case WriteFile w (serialPath @ ''.tmp'') newSerialData of
        (Some e, w1) \<Rightarrow> (Some (Wrapped ''failed to stage serial'' e), cleanupTempFiles w1 tmpPaths)
      | (None, w1) \<Rightarrow>
      (case WriteFile w1 (certFilePath @ ''.tmp'') certPEMData of
        (Some e, w2) \<Rightarrow>
          (Some (Wrapped ''failed to stage certificate'' e), cleanupTempFiles w2 tmpPaths)
      | (None, w2) \<Rightarrow>
      (case WriteFile w2 (filepathJoin dataDir ''index.json'' @ ''.tmp'') indexData of
        (Some e, w3) \<Rightarrow> (Some (Wrapped ''failed to stage index'' e), cleanupTempFiles w3 tmpPaths)
      | (None, w3) \<Rightarrow> (None, w3)))))"

definition SignCSR_commitOrder :: "path \<Rightarrow> path \<Rightarrow> (path \<times> path) list" where
  "SignCSR_commitOrder dataDir certFilePath =
     (let serialPath = filepathJoin dataDir ''serial'' in
      [(serialPath @ ''.tmp'', serialPath),
       (certFilePath @ ''.tmp'', certFilePath),
       (filepathJoin dataDir ''index.json'' @ ''.tmp'', filepathJoin dataDir ''index.json'')])"

definition SignCSR ::
  "env \<Rightarrow> world \<Rightarrow> path \<Rightarrow> content \<Rightarrow> path \<Rightarrow> int \<Rightarrow> (error + SignResult) \<times> world" where
  "SignCSR ev w dataDir csrPEM csrPath validityDays =
     (if \<not> IsInitialized w dataDir then (Inl (Errorf notInitializedMessage), w)
      else
      (case pemDecode csrPEM of
        None \<Rightarrow> (Inl (Errorf (''Error: failed to parse CSR from '' @ csrPath)), w)
      | Some (t, body) \<Rightarrow>
      (case (case body of DERRequest r \<Rightarrow> Some r | _ \<Rightarrow> None) of
        None \<Rightarrow> (Inl (Errorf (''Error: failed to parse CSR from '' @ csrPath)), w)
      | Some csr \<Rightarrow>
      if \<not> CheckSignature csr then
        (Inl (Errorf ''Error: CSR signature verification failed''), w)
      else
      (case checkKeyAlgorithm (csr_PublicKey csr) of
        Some e \<Rightarrow> (Inl e, w)
      | None \<Rightarrow>
      let caKeyPath = filepathJoin dataDir ''ca.key'';
          caCertPath = filepathJoin dataDir ''ca.crt'';
          serialPath = filepathJoin dataDir ''serial'' in
      (case LoadPrivateKey w caKeyPath of
        Inl e \<Rightarrow> (Inl (Wrapped ''failed to load CA key'' e), w)
      | Inr caKey \<Rightarrow>
      (case LoadCertificate w caCertPath of
        Inl e \<Rightarrow> (Inl (Wrapped ''failed to load CA certificate'' e), w)
      | Inr caCert \<Rightarrow>
      (case ReadCounter w serialPath of
        Inl e \<Rightarrow> (Inl (Wrapped ''failed to read serial counter'' e), w)
      | Inr serialVal \<Rightarrow>
      (case computeSKI (csr_PublicKey csr) of
        Inl e \<Rightarrow> (Inl (Wrapped ''failed to compute subject key identifier'' e), w)
      | Inr subjectSKI \<Rightarrow>
      let notAfter = addDays (now ev) validityDays;
          keyUsage = {KeyUsageDigitalSignature}
             \<union> (if isRSA (csr_PublicKey csr) then {KeyUsageKeyEncipherment} else {});
          template =
            \<lparr>cert_SerialNumber = serialVal, cert_Subject = csr_Subject csr,
             cert_Issuer = emptyName,
             cert_NotBefore = now ev, cert_NotAfter = notAfter,
             cert_KeyUsage = keyUsage,
             cert_BasicConstraintsValid = True, cert_IsCA = False,
             cert_SubjectKeyId = subjectSKI,
             cert_AuthorityKeyId = cert_SubjectKeyId caCert,
             cert_DNSNames = csr_DNSNames csr, cert_IPAddresses = csr_IPAddresses csr,
             cert_EmailAddresses = csr_EmailAddresses csr,
             cert_SignatureAlgorithm = sigAlgorithm caKey,
             cert_PublicKey = None, cert_Signature = None\<rparr> in
      (case CreateCertificate w template caCert (csr_PublicKey csr) caKey of
        Inl e \<Rightarrow> (Inl (Wrapped ''failed to create certificate'' e), w)
      | Inr certDER \<Rightarrow>
      let serialHex = FormatSerial serialVal;
          certFilePath = filepathJoin dataDir (''certs/'' @ serialHex @ ''.pem'') in
      (case LoadIndex w dataDir of
        Inl e \<Rightarrow> (Inl (Wrapped ''failed to load index'' e), w)
      | Inr index \<Rightarrow>
      let newEntry =
            \<lparr>Serial = serialHex, Subject = FormatDN (csr_Subject csr),
             NotBefore = formatRFC3339 ev (now ev), NotAfter = formatRFC3339 ev notAfter,
             Status = ''active'', RevokedAt = [], RevocationReason = []\<rparr>;
          updatedIndex = index @ [newEntry];
          certPEMData = PEM ''CERTIFICATE'' certDER;
          indexData = JSONIndex updatedIndex;
          newSerialData = Bytes (FormatSerial (int64 (serialVal + 1)) @ [CHR 0x0A]) in
      (case SignCSR_stage w dataDir certFilePath newSerialData certPEMData indexData of
        (Some e, w1) \<Rightarrow> (Inl e, w1)
      | (None, w1) \<Rightarrow>
      (case commitRenames w1 (SignCSR_tmpPaths dataDir certFilePath)
             (SignCSR_commitOrder dataDir certFilePath) of
        (Some e, w2) \<Rightarrow> (Inl e, w2)
      | (None, w2) \<Rightarrow>
          (Inr \<lparr>sr_Serial = serialHex, sr_Subject = FormatDN (csr_Subject csr),
                sr_NotAfter = notAfter, sr_CertPath = certFilePath\<rparr>, w2)))))))))))))"

subsection \<open>RevokeCert\<close>

text \<open>The search loop of \<^verbatim>\<open>RevokeCert\<close>: the position of the first entry with the given
  serial, or -1.\<close>

fun findSerial :: "IndexEntry list \<Rightarrow> string \<Rightarrow> int" where
  "findSerial [] serialHex = -1"
| "findSerial (entry # rest) serialHex =
     (if Serial entry = serialHex then 0
      else (let found = findSerial rest serialHex in if found < 0 then -1 else found + 1))"

definition RevokeCert :: "env \<Rightarrow> world \<Rightarrow> path \<Rightarrow> string \<Rightarrow> string \<Rightarrow> error option \<times> world" where
  "RevokeCert ev w dataDir serialHex reason =
     (if \<not> IsInitialized w dataDir then (Some (Errorf notInitializedMessage), w)
      else
      (case LoadIndex w dataDir of
        Inl e \<Rightarrow> (Some (Wrapped ''failed to load index'' e), w)
      | Inr index \<Rightarrow>
      let found = findSerial index serialHex in
      if found < 0 then
        (Some (Errorf (''Error: certificate with serial '' @ serialHex @ '' not found'')), w)
      else if Status (index ! nat found) = ''revoked'' then
        (Some (Errorf (''Error: certificate with serial '' @ serialHex
                        @ '' is already revoked'')), w)
      else
      let index' = index[nat found :=
                     (index ! nat found)\<lparr>Status := ''revoked'',
                                          RevokedAt := formatRFC3339 ev (now ev),
                                          RevocationReason := reason\<rparr>] in
      (case SaveIndex w dataDir index' of
        (Some e, w1) \<Rightarrow> (Some (Wrapped ''failed to save index'' e), w1)
      | (None, w1) \<Rightarrow> (None, w1))))"

subsection \<open>ListCerts\<close>

text \<open>The body of the loop of \<^verbatim>\<open>ListCerts\<close>. \<^verbatim>\<open>time.Parse\<close> returns the zero time with
  its error, and the error is dropped.\<close>

definition listEntry :: "env \<Rightarrow> IndexEntry \<Rightarrow> CertInfo" where
  "listEntry ev entry =
     (let notAfter = (case parseRFC3339 ev (NotAfter entry) of None \<Rightarrow> zeroTime | Some t \<Rightarrow> t);
          status = (if Status entry = ''revoked'' then ''revoked''
                    else if now ev > notAfter then ''expired''
                    else ''active'') in
      \<lparr>ci_Serial = Serial entry, ci_Subject = Subject entry,
       ci_NotAfter = notAfter, ci_Status = status\<rparr>)"

definition ListCerts :: "env \<Rightarrow> world \<Rightarrow> path \<Rightarrow> error + CertInfo list" where
  "ListCerts ev w dataDir =
     (if \<not> IsInitialized w dataDir then Inl (Errorf notInitializedMessage)
      else
      case LoadIndex w dataDir of
        Inl e \<Rightarrow> Inl (Wrapped ''failed to load index'' e)
      | Inr index \<Rightarrow> Inr (map (listEntry ev) index))"


section \<open>Verification (verify.go)\<close>

record VerifyResult =
  vr_Valid :: bool
  vr_Subject :: string
  vr_Serial :: string
  vr_Issuer :: string
  vr_NotBefore :: int
  vr_NotAfter :: int
  vr_SigOK :: bool
  vr_SigErr :: string
  vr_ExpiryOK :: bool
  vr_RevStatus :: string

text \<open>\<^verbatim>\<open>ReasonNames\<close> of \<^verbatim>\<open>crl.go\<close>; a code that is not a key gives the empty string.\<close>

definition ReasonNames :: "int \<Rightarrow> string" where
  "ReasonNames code =
     (case map_of [(0, ''unspecified''), (1, ''keyCompromise''), (3, ''affiliationChanged''),
                   (4, ''superseded''), (5, ''cessationOfOperation'')] code of
        None \<Rightarrow> [] | Some name \<Rightarrow> name)"

text \<open>\<^verbatim>\<open>cert.CheckSignatureFrom(parent)\<close> of the library: the parent must be a CA that
  may sign certificates, and the signature must verify under the parent's public key.
  The result is the message of the error, \<open>None\<close> when there is none.\<close>

definition CheckSignatureFrom :: "Certificate \<Rightarrow> Certificate \<Rightarrow> string option" where
  "CheckSignatureFrom c parent =
     (if \<not> cert_BasicConstraintsValid parent \<or> \<not> cert_IsCA parent then
        Some ''x509: invalid signature: parent certificate cannot sign this kind of certificate''
      else if cert_KeyUsage parent \<noteq> {} \<and> KeyUsageCertSign \<notin> cert_KeyUsage parent then
        Some ''x509: invalid signature: parent certificate cannot sign this kind of certificate''
      else if cert_PublicKey parent = None then
        Some ''x509: cannot verify signature: algorithm unimplemented''
      else if cert_Signature c = cert_PublicKey parent then None
      else Some ''x509: signature verification failure'')"

text \<open>The loop over \<^verbatim>\<open>crl.RevokedCertificateEntries\<close>: the first entry with the serial
  number of the certificate.\<close>

fun findRevoked :: "RevocationListEntry list \<Rightarrow> int \<Rightarrow> RevocationListEntry option" where
  "findRevoked [] serial = None"
| "findRevoked (entry # rest) serial =
     (if rle_SerialNumber entry = serial then Some entry else findRevoked rest serial)"

definition VerifyCert :: "env \<Rightarrow> world \<Rightarrow> path \<Rightarrow> content \<Rightarrow> path \<Rightarrow> error + VerifyResult" where
  "VerifyCert ev w dataDir certPEM certPath =
     (if \<not> IsInitialized w dataDir then Inl (Errorf notInitializedMessage)
      else
      (case pemDecode certPEM of
        None \<Rightarrow> Inl (Errorf (''failed to decode PEM from '' @ certPath))
      | Some (t, body) \<Rightarrow>
      (case (case body of DERCertificate c \<Rightarrow> Some c | _ \<Rightarrow> None) of
        None \<Rightarrow> Inl (Wrapped (''failed to parse certificate from '' @ certPath) (LibError ''x509''))
      | Some cert \<Rightarrow>
      (case LoadCertificate w (filepathJoin dataDir ''ca.crt'') of
        Inl e \<Rightarrow> Inl (Wrapped ''failed to load CA certificate'' e)
      | Inr caCert \<Rightarrow>
      let result =
            \<lparr>vr_Valid = False, vr_Subject = FormatDN (cert_Subject cert),
             vr_Serial = FormatSerialBig (cert_SerialNumber cert),
             vr_Issuer = FormatDN (cert_Issuer cert),
             vr_NotBefore = cert_NotBefore cert, vr_NotAfter = cert_NotAfter cert,
             vr_SigOK = False, vr_SigErr = [], vr_ExpiryOK = False, vr_RevStatus = []\<rparr> in
      (case CheckSignatureFrom cert caCert of
        Some err \<Rightarrow> Inr (result\<lparr>vr_SigOK := False, vr_SigErr := err, vr_Valid := False\<rparr>)
      | None \<Rightarrow>
      let result1 = result\<lparr>vr_SigOK := True\<rparr>;
          result2 = result1\<lparr>vr_ExpiryOK :=
                      \<not> now ev < cert_NotBefore cert \<and> \<not> now ev > cert_NotAfter cert\<rparr>;
          crlFilePath = filepathJoin dataDir ''ca.crl'' in
      if Stat w crlFilePath then
        (case LoadCRL w crlFilePath of
           Inl e \<Rightarrow> Inl (Wrapped ''failed to load CRL'' e)
         | Inr crl \<Rightarrow>
             (case findRevoked (crl_RevokedCertificateEntries crl) (cert_SerialNumber cert) of
                Some entry \<Rightarrow>
                  let reasonName = (if ReasonNames (rle_ReasonCode entry) = [] then ''unspecified''
                                    else ReasonNames (rle_ReasonCode entry));
                      result3 = result2\<lparr>vr_RevStatus :=
                                  ''REVOKED (reason: '' @ reasonName @ '', date: ''
                                  @ formatRFC3339 ev (rle_RevocationTime entry) @ '')''\<rparr> in
                  Inr (result3\<lparr>vr_Valid := vr_SigOK result3 \<and> vr_ExpiryOK result3 \<and> \<not> True\<rparr>)
              | None \<Rightarrow>
                  let result3 = result2\<lparr>vr_RevStatus := ''OK (not revoked)''\<rparr> in
                  Inr (result3\<lparr>vr_Valid := vr_SigOK result3 \<and> vr_ExpiryOK result3 \<and> \<not> False\<rparr>)))
      else
        let result3 = result2\<lparr>vr_RevStatus := ''NOT CHECKED (no CRL available)''\<rparr> in
        Inr (result3\<lparr>vr_Valid := vr_SigOK result3 \<and> vr_ExpiryOK result3 \<and> \<not> False\<rparr>))))))"

section \<open>CRL generation (crl.go)\<close>

record CRLResult =
  cr_ThisUpdate :: int
  cr_NextUpdate :: int
  cr_CRLNumber :: int
  cr_RevokedCount :: nat
  cr_CRLPath :: path

definition ReasonCodes :: "string \<Rightarrow> int option" where
  "ReasonCodes =
     map_of [(''unspecified'', 0), (''keyCompromise'', 1), (''affiliationChanged'', 3),
             (''superseded'', 4), (''cessationOfOperation'', 5)]"

text \<open>The loop of \<^verbatim>\<open>GenerateCRL\<close> that builds one CRL entry for every revoked index
  entry and stops at the first one it cannot parse.\<close>

fun revokedEntries :: "env \<Rightarrow> IndexEntry list \<Rightarrow> error + RevocationListEntry list" where
  "revokedEntries ev [] = Inr []"
| "revokedEntries ev (entry # rest) =
     (if Status entry \<noteq> ''revoked'' then revokedEntries ev rest
      else
      (case ParseInt16 (Serial entry) of
         None \<Rightarrow> Inl (Wrapped (''failed to parse serial '' @ Serial entry) (LibError ''strconv''))
       | Some serial \<Rightarrow>
      (case parseRFC3339 ev (RevokedAt entry) of
         None \<Rightarrow>
           Inl (Wrapped (''failed to parse revocation time for serial '' @ Serial entry)
                  (LibError ''time''))
       | Some revokedAt \<Rightarrow>
      let reasonCode = (case ReasonCodes (RevocationReason entry) of None \<Rightarrow> 0 | Some c \<Rightarrow> c) in
      (case revokedEntries ev rest of
         Inl e \<Rightarrow> Inl e
       | Inr others \<Rightarrow>
           Inr (\<lparr>rle_SerialNumber = serial, rle_RevocationTime = revokedAt,
                 rle_ReasonCode = reasonCode\<rparr> # others)))))"

definition CreateRevocationList ::
  "world \<Rightarrow> RevocationList \<Rightarrow> Certificate \<Rightarrow> private_key \<Rightarrow> error + der" where
  "CreateRevocationList w template issuer priv =
     (if OpCreateRevocationList \<in> faults w then Inl (LibError ''x509'')
      else Inr (DERRevocationList
             (template\<lparr>crl_ThisUpdate := truncateToSecond (crl_ThisUpdate template),
                       crl_NextUpdate := truncateToSecond (crl_NextUpdate template),
                       crl_Signature := Some (signerOf priv)\<rparr>)))"

definition GenerateCRL_tmpPaths :: "path \<Rightarrow> path list" where
  "GenerateCRL_tmpPaths dataDir =
     [filepathJoin dataDir ''ca.crl'' @ ''.tmp'', filepathJoin dataDir ''crlnumber'' @ ''.tmp'']"

definition GenerateCRL_commitOrder :: "path \<Rightarrow> (path \<times> path) list" where
  "GenerateCRL_commitOrder dataDir =
     (let crlPath = filepathJoin dataDir ''ca.crl'';
          crlnumPath = filepathJoin dataDir ''crlnumber'' in
      [(crlPath @ ''.tmp'', crlPath), (crlnumPath @ ''.tmp'', crlnumPath)])"

definition GenerateCRL :: "env \<Rightarrow> world \<Rightarrow> path \<Rightarrow> int \<Rightarrow> (error + CRLResult) \<times> world" where
  "GenerateCRL ev w dataDir nextUpdateHours =
     (if \<not> IsInitialized w dataDir then (Inl (Errorf notInitializedMessage), w)
      else
      let crlnumPath = filepathJoin dataDir ''crlnumber'';
          crlPath = filepathJoin dataDir ''ca.crl'' in
      (case LoadPrivateKey w (filepathJoin dataDir ''ca.key'') of
         Inl e \<Rightarrow> (Inl (Wrapped ''failed to load CA key'' e), w)
       | Inr caKey \<Rightarrow>
      (case LoadCertificate w (filepathJoin dataDir ''ca.crt'') of
         Inl e \<Rightarrow> (Inl (Wrapped ''failed to load CA certificate'' e), w)
       | Inr caCert \<Rightarrow>
      (case LoadIndex w dataDir of
         Inl e \<Rightarrow> (Inl (Wrapped ''failed to load index'' e), w)
       | Inr index \<Rightarrow>
      (case ReadCounter w crlnumPath of
         Inl e \<Rightarrow> (Inl (Wrapped ''failed to read CRL number'' e), w)
       | Inr crlNumber \<Rightarrow>
      (case revokedEntries ev index of
         Inl e \<Rightarrow> (Inl e, w)
       | Inr entries \<Rightarrow>
      let nextUpdate = now ev + int64 (nextUpdateHours * 3600000000000);
          template =
            \<lparr>crl_RevokedCertificateEntries = entries, crl_Number = crlNumber,
             crl_ThisUpdate = now ev, crl_NextUpdate = nextUpdate,
             crl_AuthorityKeyId = cert_SubjectKeyId caCert, crl_Signature = None\<rparr> in
      (case CreateRevocationList w template caCert caKey of
         Inl e \<Rightarrow> (Inl (Wrapped ''failed to create CRL'' e), w)
       | Inr crlDER \<Rightarrow>
      let tmpPaths = GenerateCRL_tmpPaths dataDir in
      (case WriteFile w (crlPath @ ''.tmp'') (PEM ''X509 CRL'' crlDER) of
         (Some e, w1) \<Rightarrow> (Inl (Wrapped ''failed to stage CRL'' e), cleanupTempFiles w1 tmpPaths)
       | (None, w1) \<Rightarrow>
      (case WriteFile w1 (crlnumPath @ ''.tmp'')
              (Bytes (FormatSerial (int64 (crlNumber + 1)) @ [CHR 0x0A])) of
         (Some e, w2) \<Rightarrow>
           (Inl (Wrapped ''failed to stage CRL number'' e), cleanupTempFiles w2 tmpPaths)
       | (None, w2) \<Rightarrow>
      (case commitRenames w2 tmpPaths (GenerateCRL_commitOrder dataDir) of
         (Some e, w3) \<Rightarrow> (Inl e, w3)
       | (None, w3) \<Rightarrow>
           (Inr \<lparr>cr_ThisUpdate = now ev, cr_NextUpdate = nextUpdate,
                 cr_CRLNumber = crlNumber, cr_RevokedCount = length entries,
                 cr_CRLPath = crlPath\<rparr>, w3)))))))))))"

section \<open>Sequences of operations\<close>

text \<open>The operations that write to the data directory, with their arguments.\<close>

datatype operation =
    DoInitCA Name string int
  | DoSignCSR content path int
  | DoRevokeCert string string
  | DoGenerateCRL int

text \<open>The data directory after one operation, whether it succeeded or failed, and after
  a sequence of operations, each with the environment it ran in.\<close>

fun perform :: "world \<Rightarrow> path \<Rightarrow> env \<times> operation \<Rightarrow> world" where
  "perform w dataDir (ev, DoInitCA subject keyAlgo validityDays) =
     snd (InitCA ev w dataDir subject keyAlgo validityDays)"
| "perform w dataDir (ev, DoSignCSR csrPEM csrPath validityDays) =
     snd (SignCSR ev w dataDir csrPEM csrPath validityDays)"
| "perform w dataDir (ev, DoRevokeCert serialHex reason) =
     snd (RevokeCert ev w dataDir serialHex reason)"
| "perform w dataDir (ev, DoGenerateCRL nextUpdateHours) =
     snd (GenerateCRL ev w dataDir nextUpdateHours)"

fun performAll :: "world \<Rightarrow> path \<Rightarrow> (env \<times> operation) list \<Rightarrow> world" where
  "performAll w dataDir [] = w"
| "performAll w dataDir (step # steps) = performAll (perform w dataDir step) dataDir steps"

text \<open>A sequence of \<^verbatim>\<open>SignCSR\<close> calls that all succeed: the directory after the last one,
  \<open>None\<close> when one of them returns an error.\<close>

fun signAll :: "world \<Rightarrow> path \<Rightarrow> (env \<times> content \<times> path \<times> int) list \<Rightarrow> world option" where
  "signAll w dataDir [] = Some w"
| "signAll w dataDir ((ev, csrPEM, csrPath, validityDays) # calls) =
     (case SignCSR ev w dataDir csrPEM csrPath validityDays of
        (Inl e, w1) \<Rightarrow> None
      | (Inr result, w1) \<Rightarrow> signAll w1 dataDir calls)"


section \<open>Example data\<close>

text \<open>A clock with a formatter and a parser that know two instants, an empty file
  system, and the data directory \<^verbatim>\<open>ca-data\<close> as \<^verbatim>\<open>InitCA\<close> leaves it.\<close>

definition exampleEnv :: env where
  "exampleEnv =
     \<lparr>now = 63906321600000000000,
      formatRFC3339 = (\<lambda>t. if t = 63906321600000000000 then ''2026-02-09T12:00:00Z''
                            else ''2027-02-09T12:00:00Z''),
      parseRFC3339 = (\<lambda>s. if s = ''2026-02-09T12:00:00Z'' then Some 63906321600000000000
                           else if s = ''2027-02-09T12:00:00Z'' then Some 63937857600000000000
                           else None),
      entropy = 7\<rparr>"

definition emptyWorld :: world where
  "emptyWorld = \<lparr>files = Map.empty, dirs = {}, faults = {}\<rparr>"

definition exampleSubject :: Name where
  "exampleSubject = emptyName\<lparr>CommonName := ''Test Root CA'', Organization := [''Test Org''],
                               Country := [''US'']\<rparr>"

definition exampleRoot :: Certificate where
  "exampleRoot =
     \<lparr>cert_SerialNumber = 1, cert_Subject = exampleSubject, cert_Issuer = exampleSubject,
      cert_NotBefore = 63906321600000000000, cert_NotAfter = 64221681600000000000,
      cert_KeyUsage = {KeyUsageCertSign, KeyUsageCRLSign},
      cert_BasicConstraintsValid = True, cert_IsCA = True,
      cert_SubjectKeyId = Some (ECDSAPublicKey P256 7), cert_AuthorityKeyId = None,
      cert_DNSNames = [], cert_IPAddresses = [], cert_EmailAddresses = [],
      cert_SignatureAlgorithm = ECDSAWithSHA256,
      cert_PublicKey = Some (ECDSAPublicKey P256 7),
      cert_Signature = Some (ECDSAPublicKey P256 7)\<rparr>"

definition exampleWorld :: world where
  "exampleWorld =
     \<lparr>files = [''ca-data/ca.key'' \<mapsto> PEM ''PRIVATE KEY'' (DERPrivateKey (ECDSAPrivateKey P256 7)),
               ''ca-data/ca.crt'' \<mapsto> PEM ''CERTIFICATE'' (DERCertificate exampleRoot),
               ''ca-data/serial'' \<mapsto> Bytes ''02\<newline>'',
               ''ca-data/crlnumber'' \<mapsto> Bytes ''01\<newline>'',
               ''ca-data/index.json'' \<mapsto> JSONIndex []],
      dirs = {''ca-data'', ''ca-data/certs''},
      faults = {}\<rparr>"


definition exampleLeaf :: Certificate where
  "exampleLeaf =
     \<lparr>cert_SerialNumber = 2, cert_Subject = emptyName\<lparr>CommonName := ''leaf.example.com''\<rparr>,
      cert_Issuer = exampleSubject,
      cert_NotBefore = 63906321600000000000, cert_NotAfter = 63937857600000000000,
      cert_KeyUsage = {KeyUsageDigitalSignature},
      cert_BasicConstraintsValid = True, cert_IsCA = False,
      cert_SubjectKeyId = Some (ECDSAPublicKey P256 11),
      cert_AuthorityKeyId = Some (ECDSAPublicKey P256 7),
      cert_DNSNames = [''leaf.example.com''], cert_IPAddresses = [], cert_EmailAddresses = [],
      cert_SignatureAlgorithm = ECDSAWithSHA256,
      cert_PublicKey = Some (ECDSAPublicKey P256 11),
      cert_Signature = Some (ECDSAPublicKey P256 7)\<rparr>"

definition exampleCRL :: RevocationList where
  "exampleCRL =
     \<lparr>crl_RevokedCertificateEntries =
        [\<lparr>rle_SerialNumber = 2, rle_RevocationTime = 63906321600000000000,
          rle_ReasonCode = 1\<rparr>],
      crl_Number = 1, crl_ThisUpdate = 63906321600000000000,
      crl_NextUpdate = 63906408000000000000,
      crl_AuthorityKeyId = Some (ECDSAPublicKey P256 7),
      crl_Signature = Some (ECDSAPublicKey P256 7)\<rparr>"

definition exampleIndex :: "IndexEntry list" where
  "exampleIndex =
     [\<lparr>Serial = ''02'', Subject = ''CN=leaf.example.com'', NotBefore = ''2026-02-09T12:00:00Z'',
       NotAfter = ''next year'', Status = ''active'', RevokedAt = [], RevocationReason = []\<rparr>,
      \<lparr>Serial = ''03'', Subject = ''CN=www.example.com'', NotBefore = ''2026-02-09T12:00:00Z'',
       NotAfter = ''2027-02-09T12:00:00Z'', Status = ''revoked'',
       RevokedAt = ''2026-02-09T12:00:00Z'', RevocationReason = ''keyCompromise''\<rparr>]"

definition exampleCSR :: CertificateRequest where
  "exampleCSR =
     \<lparr>csr_Subject = emptyName\<lparr>CommonName := ''leaf.example.com''\<rparr>,
      csr_PublicKey = Some (ECDSAPublicKey P256 11),
      csr_DNSNames = [''leaf.example.com''], csr_IPAddresses = [], csr_EmailAddresses = [],
      csr_Signature = Some (ECDSAPublicKey P256 11)\<rparr>"

definition markersOnlyWorld :: world where
  "markersOnlyWorld =
     \<lparr>files = [''ca-data/ca.key'' \<mapsto> PEM ''PRIVATE KEY'' (DERPrivateKey (ECDSAPrivateKey P256 7)),
               ''ca-data/ca.crt'' \<mapsto> PEM ''CERTIFICATE'' (DERCertificate exampleRoot)],
      dirs = {''ca-data'', ''ca-data/certs''},
      faults = {OpRename ''ca-data/serial.tmp'' ''ca-data/serial''}\<rparr>"

definition stagedWorld :: world where
  "stagedWorld =
     \<lparr>files = [''ca-data/ca.key.tmp'' \<mapsto> PEM ''PRIVATE KEY'' (DERPrivateKey (ECDSAPrivateKey P256 7)),
               ''ca-data/ca.crt.tmp'' \<mapsto> PEM ''CERTIFICATE'' (DERCertificate exampleRoot),
               ''ca-data/serial.tmp'' \<mapsto> Bytes ''02\<newline>'',
               ''ca-data/crlnumber.tmp'' \<mapsto> Bytes ''01\<newline>'',
               ''ca-data/index.json.tmp'' \<mapsto> JSONIndex []],
      dirs = {''ca-data'', ''ca-data/certs''},
      faults = {}\<rparr>"

definition exampleIssuedWorld :: world where
  "exampleIssuedWorld =
     exampleWorld\<lparr>files := (files exampleWorld)
        (''ca-data/index.json'' \<mapsto> JSONIndex exampleIndex,
         ''ca-data/serial'' \<mapsto> Bytes ''04\<newline>'')\<rparr>"

text \<open>Two states of the file system that differ at most in the files at the given
  paths.\<close>

definition sameOutside :: "path set \<Rightarrow> world \<Rightarrow> world \<Rightarrow> bool" where
  "sameOutside P w w' =
     (dirs w' = dirs w \<and> faults w' = faults w \<and> (\<forall>q. q \<notin> P \<longrightarrow> files w' q = files w q))"

section \<open>Properties\<close>

lemmas store_defs = IsInitialized_def Stat_def ReadFile_def filepathJoin_def pemDecode_def
  LoadCertificate_def LoadPrivateKey_def LoadCRL_def LoadIndex_def

lemma exampleWorld_initialized: "IsInitialized exampleWorld ''ca-data''"
  by (simp add: store_defs exampleWorld_def)

lemma exampleWorld_root:
  "LoadCertificate exampleWorld (filepathJoin ''ca-data'' ''ca.crt'') = Inr exampleRoot"
  by (simp add: store_defs exampleWorld_def)

text \<open>
  C5. When the signature of the certificate does not verify against the CA certificate,
  \<^verbatim>\<open>VerifyCert\<close> returns a result with \<open>SigOK\<close> and \<open>Valid\<close> false and with the expiry
  and revocation fields at their zero values (\<open>ExpiryOK\<close> false, \<open>RevStatus\<close> empty); the
  only other field it sets is the text of the signature error.
\<close>

theorem VerifyCert_signature_failure:
  assumes "IsInitialized w dataDir"
    and "certPEM = PEM t (DERCertificate cert)"
    and "LoadCertificate w (filepathJoin dataDir ''ca.crt'') = Inr caCert"
    and "CheckSignatureFrom cert caCert = Some err"
  shows "\<exists>r. VerifyCert ev w dataDir certPEM certPath = Inr r
           \<and> \<not> vr_SigOK r \<and> \<not> vr_Valid r \<and> \<not> vr_ExpiryOK r \<and> vr_RevStatus r = []
           \<and> vr_SigErr r = err"
  using assms by (simp add: VerifyCert_def pemDecode_def)

theorem VerifyCert_signature_failure_witness:
  "\<exists>r. VerifyCert exampleEnv exampleWorld ''ca-data''
          (PEM ''CERTIFICATE'' (DERCertificate (exampleLeaf\<lparr>cert_Signature := Some (ECDSAPublicKey P256 8)\<rparr>)))
          ''other.pem'' = Inr r
       \<and> \<not> vr_SigOK r \<and> \<not> vr_Valid r \<and> \<not> vr_ExpiryOK r \<and> vr_RevStatus r = []
       \<and> vr_SigErr r = ''x509: signature verification failure''"
proof -
  have "CheckSignatureFrom (exampleLeaf\<lparr>cert_Signature := Some (ECDSAPublicKey P256 8)\<rparr>) exampleRoot
        = Some ''x509: signature verification failure''"
    by (simp add: CheckSignatureFrom_def exampleRoot_def exampleLeaf_def)
  from VerifyCert_signature_failure [where t = "''CERTIFICATE''" and ev = exampleEnv
      and certPath = "''other.pem''", OF exampleWorld_initialized refl exampleWorld_root this]
  show ?thesis .
qed

text \<open>
  C6. When the signature verifies, \<open>ExpiryOK\<close> holds exactly when the clock lies in
  \<open>[NotBefore, NotAfter]\<close>, bounds included; without a file \<^verbatim>\<open>ca.crl\<close> the
  revocation status is \<^verbatim>\<open>NOT CHECKED (no CRL available)\<close>; and \<open>Valid\<close> holds exactly when
  \<open>SigOK\<close> and \<open>ExpiryOK\<close> hold and the serial number is not listed in the CRL that
  was loaded. (When \<^verbatim>\<open>ca.crl\<close> exists it has to load, otherwise \<^verbatim>\<open>VerifyCert\<close> returns
  the error of loading it.)
\<close>

theorem VerifyCert_checks:
  assumes "IsInitialized w dataDir"
    and "certPEM = PEM t (DERCertificate cert)"
    and "LoadCertificate w (filepathJoin dataDir ''ca.crt'') = Inr caCert"
    and "CheckSignatureFrom cert caCert = None"
    and "Stat w (filepathJoin dataDir ''ca.crl'')
         \<Longrightarrow> LoadCRL w (filepathJoin dataDir ''ca.crl'') = Inr crl"
  shows "\<exists>r. VerifyCert ev w dataDir certPEM certPath = Inr r
           \<and> vr_SigOK r
           \<and> (vr_ExpiryOK r \<longleftrightarrow> cert_NotBefore cert \<le> now ev \<and> now ev \<le> cert_NotAfter cert)
           \<and> (\<not> Stat w (filepathJoin dataDir ''ca.crl'')
                \<longrightarrow> vr_RevStatus r = ''NOT CHECKED (no CRL available)'')
           \<and> (vr_Valid r \<longleftrightarrow>
                vr_SigOK r \<and> vr_ExpiryOK r
                \<and> \<not> (Stat w (filepathJoin dataDir ''ca.crl'')
                      \<and> cert_SerialNumber cert
                          \<in> rle_SerialNumber ` set (crl_RevokedCertificateEntries crl)))"
proof -
  have found: "(findRevoked es n = None) = (n \<notin> rle_SerialNumber ` set es)" for es n
    by (induction es) auto
  show ?thesis
  proof (cases "Stat w (filepathJoin dataDir ''ca.crl'')")
    case True
    with assms(5) have "LoadCRL w (filepathJoin dataDir ''ca.crl'') = Inr crl" by simp
    with True assms(1-4) found [of "crl_RevokedCertificateEntries crl" "cert_SerialNumber cert"]
    show ?thesis
      by (cases "findRevoked (crl_RevokedCertificateEntries crl) (cert_SerialNumber cert)")
         (auto simp: VerifyCert_def pemDecode_def Let_def)
  next
    case False
    with assms(1-4) show ?thesis
      by (auto simp: VerifyCert_def pemDecode_def Let_def)
  qed
qed


theorem VerifyCert_checks_witness:
  "(\<exists>r. VerifyCert exampleEnv exampleWorld ''ca-data''
          (PEM ''CERTIFICATE'' (DERCertificate exampleLeaf)) ''leaf.pem'' = Inr r
        \<and> vr_SigOK r \<and> vr_ExpiryOK r \<and> vr_Valid r
        \<and> vr_RevStatus r = ''NOT CHECKED (no CRL available)'')
   \<and> (\<exists>r. VerifyCert exampleEnv
          (exampleWorld\<lparr>files := (files exampleWorld)
              (''ca-data/ca.crl'' \<mapsto> PEM ''X509 CRL'' (DERRevocationList exampleCRL))\<rparr>)
          ''ca-data'' (PEM ''CERTIFICATE'' (DERCertificate exampleLeaf)) ''leaf.pem'' = Inr r
        \<and> vr_SigOK r \<and> vr_ExpiryOK r \<and> \<not> vr_Valid r)"
proof -
  let ?w = "exampleWorld\<lparr>files := (files exampleWorld)
              (''ca-data/ca.crl'' \<mapsto> PEM ''X509 CRL'' (DERRevocationList exampleCRL))\<rparr>"
  have sig: "CheckSignatureFrom exampleLeaf exampleRoot = None"
    by (simp add: CheckSignatureFrom_def exampleRoot_def exampleLeaf_def)
  have absent: "\<not> Stat exampleWorld (filepathJoin ''ca-data'' ''ca.crl'')"
    by (simp add: store_defs exampleWorld_def)
  have init: "IsInitialized ?w ''ca-data''"
    by (simp add: store_defs exampleWorld_def)
  have root: "LoadCertificate ?w (filepathJoin ''ca-data'' ''ca.crt'') = Inr exampleRoot"
    by (simp add: store_defs exampleWorld_def)
  have crl: "LoadCRL ?w (filepathJoin ''ca-data'' ''ca.crl'') = Inr exampleCRL"
    by (simp add: store_defs exampleWorld_def)
  have present: "Stat ?w (filepathJoin ''ca-data'' ''ca.crl'')"
    by (simp add: store_defs exampleWorld_def)
  from VerifyCert_checks [where t = "''CERTIFICATE''" and ev = exampleEnv
      and certPath = "''leaf.pem''" and crl = exampleCRL,
      OF exampleWorld_initialized refl exampleWorld_root sig] absent
  obtain r where r: "VerifyCert exampleEnv exampleWorld ''ca-data''
        (PEM ''CERTIFICATE'' (DERCertificate exampleLeaf)) ''leaf.pem'' = Inr r"
      "vr_SigOK r"
      "vr_ExpiryOK r \<longleftrightarrow> cert_NotBefore exampleLeaf \<le> now exampleEnv
         \<and> now exampleEnv \<le> cert_NotAfter exampleLeaf"
      "vr_RevStatus r = ''NOT CHECKED (no CRL available)''"
      "vr_Valid r \<longleftrightarrow> vr_SigOK r \<and> vr_ExpiryOK r"
    by auto
  from r(3) have "vr_ExpiryOK r" by (simp add: exampleEnv_def exampleLeaf_def)
  with r have first: "\<exists>r. VerifyCert exampleEnv exampleWorld ''ca-data''
          (PEM ''CERTIFICATE'' (DERCertificate exampleLeaf)) ''leaf.pem'' = Inr r
        \<and> vr_SigOK r \<and> vr_ExpiryOK r \<and> vr_Valid r
        \<and> vr_RevStatus r = ''NOT CHECKED (no CRL available)''"
    by blast
  from VerifyCert_checks [where t = "''CERTIFICATE''" and ev = exampleEnv
      and certPath = "''leaf.pem''", OF init refl root sig crl] present
  obtain r' where r': "VerifyCert exampleEnv ?w ''ca-data''
        (PEM ''CERTIFICATE'' (DERCertificate exampleLeaf)) ''leaf.pem'' = Inr r'"
      "vr_SigOK r'"
      "vr_ExpiryOK r' \<longleftrightarrow> cert_NotBefore exampleLeaf \<le> now exampleEnv
         \<and> now exampleEnv \<le> cert_NotAfter exampleLeaf"
      "vr_Valid r' \<longleftrightarrow> vr_SigOK r' \<and> vr_ExpiryOK r'
         \<and> cert_SerialNumber exampleLeaf
             \<notin> rle_SerialNumber ` set (crl_RevokedCertificateEntries exampleCRL)"
    by auto
  from r'(3) have "vr_ExpiryOK r'" by (simp add: exampleEnv_def exampleLeaf_def)
  moreover from r'(4) have "\<not> vr_Valid r'" by (simp add: exampleLeaf_def exampleCRL_def)
  ultimately have second: "\<exists>r. VerifyCert exampleEnv ?w ''ca-data''
          (PEM ''CERTIFICATE'' (DERCertificate exampleLeaf)) ''leaf.pem'' = Inr r
        \<and> vr_SigOK r \<and> vr_ExpiryOK r \<and> \<not> vr_Valid r"
    using r' by blast
  from first second show ?thesis by blast
qed

text \<open>
  C10. An index entry whose \<^verbatim>\<open>not_after\<close> does not parse as RFC 3339 does not make
  \<^verbatim>\<open>ListCerts\<close> fail: the entry is listed with the zero time as \<open>NotAfter\<close> and, unless
  it is revoked, with the display status \<^verbatim>\<open>expired\<close>. The clock is after the zero time
  (1 January of year 1), as every clock reading is.
\<close>

theorem ListCerts_unparseable_not_after:
  assumes "IsInitialized w dataDir"
    and "LoadIndex w dataDir = Inr index"
    and "i < length index"
    and "parseRFC3339 ev (NotAfter (index ! i)) = None"
    and "zeroTime < now ev"
  shows "\<exists>certs. ListCerts ev w dataDir = Inr certs \<and> length certs = length index
           \<and> ci_Serial (certs ! i) = Serial (index ! i)
           \<and> ci_NotAfter (certs ! i) = zeroTime
           \<and> (Status (index ! i) \<noteq> ''revoked'' \<longrightarrow> ci_Status (certs ! i) = ''expired'')"
  using assms by (simp add: ListCerts_def listEntry_def)

theorem ListCerts_unparseable_not_after_witness:
  "\<exists>certs. ListCerts exampleEnv
       (exampleWorld\<lparr>files := (files exampleWorld)(''ca-data/index.json'' \<mapsto> JSONIndex exampleIndex)\<rparr>)
       ''ca-data'' = Inr certs
     \<and> length certs = 2 \<and> ci_Serial (certs ! 0) = ''02'' \<and> ci_NotAfter (certs ! 0) = zeroTime
     \<and> ci_Status (certs ! 0) = ''expired''"
proof -
  let ?w = "exampleWorld\<lparr>files := (files exampleWorld)(''ca-data/index.json'' \<mapsto> JSONIndex exampleIndex)\<rparr>"
  have init: "IsInitialized ?w ''ca-data''"
    by (simp add: store_defs exampleWorld_def)
  have idx: "LoadIndex ?w ''ca-data'' = Inr exampleIndex"
    by (simp add: store_defs exampleWorld_def)
  have len: "0 < length exampleIndex" by (simp add: exampleIndex_def)
  have bad: "parseRFC3339 exampleEnv (NotAfter (exampleIndex ! 0)) = None"
    by (simp add: exampleIndex_def exampleEnv_def)
  have clock: "zeroTime < now exampleEnv" by (simp add: zeroTime_def exampleEnv_def)
  from ListCerts_unparseable_not_after [OF init idx len bad clock]
  obtain certs where c: "ListCerts exampleEnv ?w ''ca-data'' = Inr certs"
      "length certs = length exampleIndex"
      "ci_Serial (certs ! 0) = Serial (exampleIndex ! 0)"
      "ci_NotAfter (certs ! 0) = zeroTime"
      "Status (exampleIndex ! 0) \<noteq> ''revoked'' \<longrightarrow> ci_Status (certs ! 0) = ''expired''"
    by blast
  from c(2) have "length certs = 2" by (simp add: exampleIndex_def)
  moreover from c(3) have "ci_Serial (certs ! 0) = ''02''" by (simp add: exampleIndex_def)
  moreover from c(5) have "ci_Status (certs ! 0) = ''expired''" by (simp add: exampleIndex_def)
  ultimately show ?thesis using c(1) c(4) by blast
qed

text \<open>
  C3, as stated, fails: the messages of the precondition failures carry the prefix
  \<^verbatim>\<open>Error: \<close>, and the message for a directory that is not initialized also
  carries the suffix \<^verbatim>\<open>. Run 'ca init' first.\<close>
\<close>

theorem precondition_error_texts_counterexample:
  "RevokeCert exampleEnv exampleWorld ''ca-data'' ''0a'' ''unspecified''
     = (Some (Errorf ''Error: certificate with serial 0a not found''), exampleWorld)
   \<and> fst (RevokeCert exampleEnv exampleWorld ''ca-data'' ''0a'' ''unspecified'')
       \<noteq> Some (Errorf ''certificate with serial 0a not found'')
   \<and> fst (InitCA exampleEnv exampleWorld ''ca-data'' exampleSubject ''ecdsa-p256'' 3650)
       \<noteq> Inl (Errorf ''CA already initialized at ca-data'')
   \<and> fst (SignCSR exampleEnv emptyWorld ''ca-data'' (PEM ''CERTIFICATE REQUEST'' (DERRequest exampleCSR))
            ''leaf.csr'' 365)
       \<noteq> Inl (Errorf ''CA not initialized'')"
  by (simp add: RevokeCert_def InitCA_def SignCSR_def store_defs exampleWorld_def emptyWorld_def
        notInitializedMessage_def)

lemma findSerial_absent: "serialHex \<notin> Serial ` set index \<Longrightarrow> findSerial index serialHex = -1"
  by (induction index) (auto simp: Let_def)

text \<open>
  C3, amended. \<^verbatim>\<open>InitCA\<close> on an initialized directory returns exactly
  \<^verbatim>\<open>Error: CA already initialized at <dir>\<close>; \<^verbatim>\<open>SignCSR\<close> on a directory that is not
  initialized returns exactly \<^verbatim>\<open>Error: CA not initialized. Run 'ca init' first.\<close>;
  \<^verbatim>\<open>RevokeCert\<close> on a serial that no index entry carries returns exactly
  \<^verbatim>\<open>Error: certificate with serial <s> not found\<close>. In each case the data directory is
  left as it was.
\<close>

theorem precondition_error_texts:
  "(IsInitialized w dataDir \<longrightarrow>
      InitCA ev w dataDir subject keyAlgo validityDays
        = (Inl (Errorf (''Error: CA already initialized at '' @ dataDir)), w))
   \<and> (\<not> IsInitialized w dataDir \<longrightarrow>
      SignCSR ev w dataDir csrPEM csrPath validityDays
        = (Inl (Errorf (''Error: CA not initialized. Run '' @ [CHR 0x27] @ ''ca init''
                          @ [CHR 0x27] @ '' first.'')), w))
   \<and> (IsInitialized w dataDir \<and> LoadIndex w dataDir = Inr index
        \<and> serialHex \<notin> Serial ` set index \<longrightarrow>
      RevokeCert ev w dataDir serialHex reason
        = (Some (Errorf (''Error: certificate with serial '' @ serialHex @ '' not found'')), w))"
  by (simp add: InitCA_def SignCSR_def RevokeCert_def notInitializedMessage_def findSerial_absent)

theorem precondition_error_texts_witness:
  "InitCA exampleEnv exampleWorld ''ca-data'' exampleSubject ''ecdsa-p256'' 3650
     = (Inl (Errorf ''Error: CA already initialized at ca-data''), exampleWorld)
   \<and> SignCSR exampleEnv emptyWorld ''ca-data'' (PEM ''CERTIFICATE REQUEST'' (DERRequest exampleCSR))
        ''leaf.csr'' 365
     = (Inl (Errorf (''Error: CA not initialized. Run '' @ [CHR 0x27] @ ''ca init''
                          @ [CHR 0x27] @ '' first.'')), emptyWorld)
   \<and> RevokeCert exampleEnv exampleWorld ''ca-data'' ''0a'' ''unspecified''
     = (Some (Errorf ''Error: certificate with serial 0a not found''), exampleWorld)"
proof -
  have uninit: "\<not> IsInitialized emptyWorld ''ca-data''"
    by (simp add: store_defs emptyWorld_def)
  have idx: "LoadIndex exampleWorld ''ca-data'' = Inr []"
    by (simp add: store_defs exampleWorld_def)
  have absent: "''0a'' \<notin> Serial ` set []" by simp
  from precondition_error_texts [where w = exampleWorld and dataDir = "''ca-data''"
      and ev = exampleEnv and subject = exampleSubject and keyAlgo = "''ecdsa-p256''"
      and validityDays = 3650 and index = "[]" and serialHex = "''0a''"
      and reason = "''unspecified''"] exampleWorld_initialized idx absent
  have a: "InitCA exampleEnv exampleWorld ''ca-data'' exampleSubject ''ecdsa-p256'' 3650
     = (Inl (Errorf ''Error: CA already initialized at ca-data''), exampleWorld)"
    and c: "RevokeCert exampleEnv exampleWorld ''ca-data'' ''0a'' ''unspecified''
     = (Some (Errorf ''Error: certificate with serial 0a not found''), exampleWorld)"
    by simp_all
  from precondition_error_texts [where w = emptyWorld and dataDir = "''ca-data''"
      and ev = exampleEnv
      and csrPEM = "PEM ''CERTIFICATE REQUEST'' (DERRequest exampleCSR)"
      and csrPath = "''leaf.csr''" and validityDays = 365] uninit
  have b: "SignCSR exampleEnv emptyWorld ''ca-data''
        (PEM ''CERTIFICATE REQUEST'' (DERRequest exampleCSR)) ''leaf.csr'' 365
     = (Inl (Errorf (''Error: CA not initialized. Run '' @ [CHR 0x27] @ ''ca init''
                          @ [CHR 0x27] @ '' first.'')), emptyWorld)" by blast
  from a b c show ?thesis by blast
qed

lemmas InitCA_defs = InitCA_def generateKeyPair_def publicKey_def computeSKI_def
  CreateCertificate_def InitDataDir_def InitCA_stage_def Let_def WriteFile_def
  InitCA_tmpPaths_def InitCA_commitOrder_def Rename_def Remove_def addDays_def int64_def
  sigAlgorithm_def FormatSerial_def hex.simps hexDigit_def truncateToSecond_def signerOf_def
  FormatDN_def AlgoDisplayName_def

text \<open>
  C1. The commit order of \<^verbatim>\<open>InitCA\<close> in the code is \<^verbatim>\<open>ca.key\<close>, \<^verbatim>\<open>ca.crt\<close>, \<^verbatim>\<open>serial\<close>,
  \<^verbatim>\<open>crlnumber\<close>, \<^verbatim>\<open>index.json\<close>: the two marker files are renamed first, not last.
  When the third rename is refused, \<^verbatim>\<open>InitCA\<close> returns an error and leaves a directory for
  which \<^verbatim>\<open>IsInitialized\<close> holds although \<^verbatim>\<open>serial\<close>, \<^verbatim>\<open>crlnumber\<close> and \<^verbatim>\<open>index.json\<close> do not
  exist; the same holds for the state after the first two renames, where a crash would
  leave the directory.
\<close>

theorem InitCA_commit_order_in_code:
  "map snd (InitCA_commitOrder ''ca-data'')
     = [''ca-data/ca.key'', ''ca-data/ca.crt'', ''ca-data/serial'', ''ca-data/crlnumber'',
        ''ca-data/index.json'']
   \<and> InitCA exampleEnv (emptyWorld\<lparr>faults := {OpRename ''ca-data/serial.tmp'' ''ca-data/serial''}\<rparr>)
         ''ca-data'' exampleSubject ''ecdsa-p256'' 3650
       = (Inl (Wrapped ''failed to commit ca-data/serial''
                 (SysError (OpRename ''ca-data/serial.tmp'' ''ca-data/serial''))),
          markersOnlyWorld)
   \<and> IsInitialized markersOnlyWorld ''ca-data''
   \<and> files markersOnlyWorld ''ca-data/serial'' = None
   \<and> files markersOnlyWorld ''ca-data/crlnumber'' = None
   \<and> files markersOnlyWorld ''ca-data/index.json'' = None
   \<and> (case commitRenames stagedWorld (InitCA_tmpPaths ''ca-data'')
               (take 2 (InitCA_commitOrder ''ca-data'')) of
         (failure, crashed) \<Rightarrow>
           failure = None \<and> IsInitialized crashed ''ca-data''
           \<and> files crashed ''ca-data/serial'' = None
           \<and> files crashed ''ca-data/index.json'' = None)"
proof -
  have order: "map snd (InitCA_commitOrder ''ca-data'')
     = [''ca-data/ca.key'', ''ca-data/ca.crt'', ''ca-data/serial'', ''ca-data/crlnumber'',
        ''ca-data/index.json'']"
    by (simp add: InitCA_commitOrder_def filepathJoin_def)
  have run: "InitCA exampleEnv (emptyWorld\<lparr>faults := {OpRename ''ca-data/serial.tmp'' ''ca-data/serial''}\<rparr>)
         ''ca-data'' exampleSubject ''ecdsa-p256'' 3650
       = (Inl (Wrapped ''failed to commit ca-data/serial''
                 (SysError (OpRename ''ca-data/serial.tmp'' ''ca-data/serial''))),
          markersOnlyWorld)"
    by (simp add: InitCA_defs store_defs emptyWorld_def exampleEnv_def markersOnlyWorld_def
          exampleRoot_def exampleSubject_def emptyName_def)
  have left: "IsInitialized markersOnlyWorld ''ca-data''
     \<and> files markersOnlyWorld ''ca-data/serial'' = None
     \<and> files markersOnlyWorld ''ca-data/crlnumber'' = None
     \<and> files markersOnlyWorld ''ca-data/index.json'' = None"
    by (simp add: store_defs markersOnlyWorld_def)
  have crash: "(case commitRenames stagedWorld (InitCA_tmpPaths ''ca-data'')
               (take 2 (InitCA_commitOrder ''ca-data'')) of
         (failure, crashed) \<Rightarrow>
           failure = None \<and> IsInitialized crashed ''ca-data''
           \<and> files crashed ''ca-data/serial'' = None
           \<and> files crashed ''ca-data/index.json'' = None)"
    by (simp add: InitCA_commitOrder_def InitCA_tmpPaths_def Rename_def store_defs stagedWorld_def)
  from order run left crash show ?thesis by blast
qed

text \<open>
  C8. When the write of \<^verbatim>\<open>serial.tmp\<close> fails in a directory that did not exist,
  \<^verbatim>\<open>InitCA\<close> returns the error and leaves no file at all, neither a \<^verbatim>\<open>.tmp\<close> file nor a
  final one, and keeps the data directory; but the subdirectory \<^verbatim>\<open>certs\<close>, which this
  call created, is still there.
\<close>

theorem InitCA_stage_failure_keeps_certs_dir:
  "InitCA exampleEnv (emptyWorld\<lparr>faults := {OpWrite ''ca-data/serial.tmp''}\<rparr>)
      ''ca-data'' exampleSubject ''ecdsa-p256'' 3650
    = (Inl (Wrapped ''failed to write serial'' (SysError (OpWrite ''ca-data/serial.tmp''))),
       emptyWorld\<lparr>dirs := {''ca-data'', ''ca-data/certs''},
                  faults := {OpWrite ''ca-data/serial.tmp''}\<rparr>)
   \<and> dirs emptyWorld = {}"
  by (simp add: InitCA_defs store_defs emptyWorld_def exampleEnv_def)

lemma commitRenames_error:
  "commitRenames w tmpPaths order = (Some e, w') \<Longrightarrow> \<exists>m e'. e = Wrapped m e'"
proof (induction order arbitrary: w)
  case Nil
  then show ?case by simp
next
  case (Cons c cs)
  obtain tmp final where c: "c = (tmp, final)" by (cases c)
  show ?case
  proof (cases "Rename w tmp final")
    case (Pair r w1)
    with Cons c show ?thesis by (cases r) auto
  qed
qed

lemma SignCSR_stage_error:
  "SignCSR_stage w dataDir certFilePath a b c = (Some e, w') \<Longrightarrow> \<exists>m e'. e = Wrapped m e'"
  by (auto simp: SignCSR_stage_def Let_def split: prod.splits option.splits)

lemma checkKeyAlgorithm_None:
  "checkKeyAlgorithm pub = None \<longleftrightarrow>
     (\<exists>k. pub = Some (ECDSAPublicKey P256 k)) \<or> (\<exists>k. pub = Some (RSAPublicKey 2048 k))"
  by (auto simp: checkKeyAlgorithm_def split: option.splits public_key.splits)

lemma checkKeyAlgorithm_Some:
  "checkKeyAlgorithm pub = Some e \<Longrightarrow> e = Errorf unsupportedKeyMessage"
  by (auto simp: checkKeyAlgorithm_def split: option.splits public_key.splits if_splits)

lemma SignCSR_after_validation:
  assumes "IsInitialized w dataDir"
    and "csrPEM = PEM t (DERRequest csr)"
    and "CheckSignature csr"
    and "checkKeyAlgorithm (csr_PublicKey csr) = None"
  shows "fst (SignCSR ev w dataDir csrPEM csrPath validityDays) \<noteq> Inl (Errorf m)"
  using assms
  by (auto simp: SignCSR_def pemDecode_def Let_def
      split: sum.splits prod.splits option.splits
      dest!: commitRenames_error SignCSR_stage_error)

text \<open>
  C4. For a request that parses and whose own signature verifies, in an initialized
  directory: \<^verbatim>\<open>SignCSR\<close> fails with the unsupported-algorithm error exactly when the
  public key is neither an ECDSA key on P-256 nor an RSA key with a modulus of exactly
  2048 bits, and then the data directory is returned as it was (no file is written, so
  \<^verbatim>\<open>serial\<close>, \<^verbatim>\<open>index.json\<close> and \<^verbatim>\<open>certs/\<close> are unchanged). The message is the text
  \<^verbatim>\<open>unsupported key algorithm in CSR. Supported: ECDSA P-256, RSA 2048\<close> after the
  prefix \<^verbatim>\<open>Error: \<close> that every precondition message of the code carries.
\<close>

theorem SignCSR_key_algorithm:
  assumes "IsInitialized w dataDir"
    and "csrPEM = PEM t (DERRequest csr)"
    and "CheckSignature csr"
  shows "if (\<exists>k. csr_PublicKey csr = Some (ECDSAPublicKey P256 k))
            \<or> (\<exists>k. csr_PublicKey csr = Some (RSAPublicKey 2048 k))
         then fst (SignCSR ev w dataDir csrPEM csrPath validityDays)
                \<noteq> Inl (Errorf (''Error: '' @
                     ''unsupported key algorithm in CSR. Supported: ECDSA P-256, RSA 2048''))
         else SignCSR ev w dataDir csrPEM csrPath validityDays
                = (Inl (Errorf (''Error: '' @
                     ''unsupported key algorithm in CSR. Supported: ECDSA P-256, RSA 2048'')), w)"
proof (cases "checkKeyAlgorithm (csr_PublicKey csr)")
  case None
  with assms SignCSR_after_validation [OF assms None] show ?thesis
    by (simp add: checkKeyAlgorithm_None)
next
  case (Some e)
  then have "e = Errorf unsupportedKeyMessage" by (rule checkKeyAlgorithm_Some)
  moreover from Some have "\<not> ((\<exists>k. csr_PublicKey csr = Some (ECDSAPublicKey P256 k))
            \<or> (\<exists>k. csr_PublicKey csr = Some (RSAPublicKey 2048 k)))"
    using checkKeyAlgorithm_None [of "csr_PublicKey csr"] by simp
  ultimately show ?thesis using assms Some
    by (simp add: SignCSR_def pemDecode_def unsupportedKeyMessage_def)
qed

theorem SignCSR_key_algorithm_witness:
  "SignCSR exampleEnv exampleWorld ''ca-data''
      (PEM ''CERTIFICATE REQUEST''
         (DERRequest (exampleCSR\<lparr>csr_PublicKey := Some (RSAPublicKey 1024 5),
                                  csr_Signature := Some (RSAPublicKey 1024 5)\<rparr>)))
      ''weak.csr'' 365
    = (Inl (Errorf ''Error: unsupported key algorithm in CSR. Supported: ECDSA P-256, RSA 2048''),
       exampleWorld)
   \<and> fst (SignCSR exampleEnv exampleWorld ''ca-data''
            (PEM ''CERTIFICATE REQUEST'' (DERRequest exampleCSR)) ''leaf.csr'' 365)
       \<noteq> Inl (Errorf ''Error: unsupported key algorithm in CSR. Supported: ECDSA P-256, RSA 2048'')"
proof -
  let ?weak = "exampleCSR\<lparr>csr_PublicKey := Some (RSAPublicKey 1024 5),
                           csr_Signature := Some (RSAPublicKey 1024 5)\<rparr>"
  have sig1: "CheckSignature ?weak" by (simp add: CheckSignature_def)
  have sig2: "CheckSignature exampleCSR" by (simp add: CheckSignature_def exampleCSR_def)
  from SignCSR_key_algorithm [where ev = exampleEnv and csrPath = "''weak.csr''"
      and validityDays = 365 and t = "''CERTIFICATE REQUEST''",
      OF exampleWorld_initialized refl sig1]
  have a: "SignCSR exampleEnv exampleWorld ''ca-data''
      (PEM ''CERTIFICATE REQUEST'' (DERRequest ?weak)) ''weak.csr'' 365
    = (Inl (Errorf ''Error: unsupported key algorithm in CSR. Supported: ECDSA P-256, RSA 2048''),
       exampleWorld)"
    by simp
  from SignCSR_key_algorithm [where ev = exampleEnv and csrPath = "''leaf.csr''"
      and validityDays = 365 and t = "''CERTIFICATE REQUEST''",
      OF exampleWorld_initialized refl sig2]
  have b: "fst (SignCSR exampleEnv exampleWorld ''ca-data''
            (PEM ''CERTIFICATE REQUEST'' (DERRequest exampleCSR)) ''leaf.csr'' 365)
       \<noteq> Inl (Errorf ''Error: unsupported key algorithm in CSR. Supported: ECDSA P-256, RSA 2048'')"
    by (simp add: exampleCSR_def)
  from a b show ?thesis by blast
qed

lemma cleanupTempFiles_frame:
  "dirs (cleanupTempFiles w ps) = dirs w \<and> faults (cleanupTempFiles w ps) = faults w
   \<and> (\<forall>q. files (cleanupTempFiles w ps) q = (if q \<in> set ps then None else files w q))"
  by (induction ps arbitrary: w) (auto simp: Remove_def)

lemma Rename_None:
  "Rename w old new = (None, w1) \<Longrightarrow>
     \<exists>data. files w old = Some data \<and> w1 = w\<lparr>files := (files w)(old := None, new \<mapsto> data)\<rparr>"
  by (auto simp: Rename_def split: if_splits option.splits)

lemma Rename_Some: "Rename w old new = (Some e, w1) \<Longrightarrow> w1 = w"
  by (auto simp: Rename_def split: if_splits option.splits)

lemma WriteFile_None:
  "WriteFile w p data = (None, w1) \<Longrightarrow> w1 = w\<lparr>files := (files w)(p \<mapsto> data)\<rparr>"
  by (auto simp: WriteFile_def split: if_splits)

lemma WriteFile_Some: "WriteFile w p data = (Some e, w1) \<Longrightarrow> w1 = w"
  by (auto simp: WriteFile_def split: if_splits)

lemma commitRenames_failure:
  assumes "commitRenames w tmp order = (Some e, w')" and "fst ` set order \<subseteq> set tmp"
  shows "dirs w' = dirs w \<and> faults w' = faults w
     \<and> (\<forall>q. q \<notin> set tmp \<and> q \<notin> snd ` set (butlast order) \<longrightarrow> files w' q = files w q)
     \<and> (\<forall>q \<in> set tmp. files w' q = None)"
  using assms
proof (induction order arbitrary: w)
  case Nil
  then show ?case by simp
next
  case (Cons c cs)
  obtain t f where c: "c = (t, f)" by (cases c)
  obtain r1 w1 where r: "Rename w t f = (r1, w1)" by (cases "Rename w t f")
  show ?case
  proof (cases r1)
    case (Some e1)
    with r have "w1 = w" by (auto dest: Rename_Some)
    with Cons.prems c r Some have "w' = cleanupTempFiles w tmp" by simp
    then show ?thesis by (simp add: cleanupTempFiles_frame)
  next
    case None
    with r obtain data where w1: "w1 = w\<lparr>files := (files w)(t := None, f \<mapsto> data)\<rparr>"
      by (auto dest: Rename_None)
    from Cons.prems c r None have run: "commitRenames w1 tmp cs = (Some e, w')" by simp
    then have ne: "cs \<noteq> []" by auto
    from Cons.prems c have sub: "fst ` set cs \<subseteq> set tmp" and t: "t \<in> set tmp" by auto
    from Cons.IH [OF run sub] w1 ne c t show ?thesis by auto
  qed
qed

lemma commitRenames_success:
  assumes "commitRenames w tmp order = (None, w')"
    and "distinct (map fst order)" and "distinct (map snd order)"
    and "fst ` set order \<inter> snd ` set order = {}"
  shows "dirs w' = dirs w \<and> faults w' = faults w
     \<and> (\<forall>q. files w' q =
           (if q \<in> fst ` set order then None
            else (case map_of (map (\<lambda>(t, f). (f, t)) order) q of
                    Some t \<Rightarrow> files w t
                  | None \<Rightarrow> files w q)))"
  using assms
proof (induction order arbitrary: w)
  case Nil
  then show ?case by simp
next
  case (Cons c cs)
  obtain t f where c: "c = (t, f)" by (cases c)
  obtain r1 w1 where r: "Rename w t f = (r1, w1)" by (cases "Rename w t f")
  from Cons.prems(1) c r have r1: "r1 = None" by (cases r1) auto
  with r obtain data where data: "files w t = Some data"
    and w1: "w1 = w\<lparr>files := (files w)(t := None, f \<mapsto> data)\<rparr>"
    by (auto dest: Rename_None)
  from Cons.prems(1) c r r1 have run: "commitRenames w1 tmp cs = (None, w')" by simp
  from Cons.prems c have d: "distinct (map fst cs)" "distinct (map snd cs)"
    "fst ` set cs \<inter> snd ` set cs = {}" by auto
  from Cons.prems c have tf: "t \<notin> fst ` set cs" "f \<notin> snd ` set cs" "t \<notin> snd ` set cs"
    "f \<notin> fst ` set cs" "t \<noteq> f"
    by auto
  have swap: "map_of (map (\<lambda>(t, f). (f, t)) cs) q = Some s \<Longrightarrow> s \<in> fst ` set cs \<and> q \<in> snd ` set cs"
    for q s
    by (auto dest!: map_of_SomeD simp: image_iff) force+
  note ih = Cons.IH [OF run d]
  show ?case
  proof (intro conjI allI)
    show "dirs w' = dirs w" using ih w1 by simp
    show "faults w' = faults w" using ih w1 by simp
    fix q
    show "files w' q =
           (if q \<in> fst ` set (c # cs) then None
            else (case map_of (map (\<lambda>(t, f). (f, t)) (c # cs)) q of
                    Some t \<Rightarrow> files w t
                  | None \<Rightarrow> files w q))"
    proof (cases "map_of (map (\<lambda>(t, f). (f, t)) cs) q")
      case None
      with ih w1 c tf data show ?thesis by auto
    next
      case (Some s)
      with swap have "s \<in> fst ` set cs" "q \<in> snd ` set cs" by auto
      with ih w1 c tf data Some show ?thesis by auto
    qed
  qed
qed


lemma SignCSR_stage_frame:
  assumes "SignCSR_stage w d cf a b c = (r, w1)"
  shows "dirs w1 = dirs w \<and> faults w1 = faults w
    \<and> (case r of
          None \<Rightarrow> (\<forall>q. files w1 q =
                     (if q = filepathJoin d ''index.json'' @ ''.tmp'' then Some c
                      else if q = cf @ ''.tmp'' then Some b
                      else if q = filepathJoin d ''serial'' @ ''.tmp'' then Some a
                      else files w q))
        | Some e \<Rightarrow> (\<forall>q. files w1 q =
                     (if q \<in> set (SignCSR_tmpPaths d cf) then None else files w q)))"
proof -
  let ?S = "filepathJoin d ''serial'' @ ''.tmp''"
  let ?C = "cf @ ''.tmp''"
  let ?I = "filepathJoin d ''index.json'' @ ''.tmp''"
  let ?tmp = "SignCSR_tmpPaths d cf"
  obtain r1 wa where a: "WriteFile w ?S a = (r1, wa)" by (cases "WriteFile w ?S a")
  show ?thesis
  proof (cases r1)
    case (Some e1)
    with a have "wa = w" by (auto dest: WriteFile_Some)
    with assms a Some show ?thesis
      by (clarsimp simp: SignCSR_stage_def Let_def cleanupTempFiles_frame)
  next
    case None
    with a have wa: "wa = w\<lparr>files := (files w)(?S \<mapsto> a)\<rparr>" by (auto dest: WriteFile_None)
    obtain r2 wb where b: "WriteFile wa ?C b = (r2, wb)" by (cases "WriteFile wa ?C b")
    show ?thesis
    proof (cases r2)
      case (Some e2)
      with b have "wb = wa" by (auto dest: WriteFile_Some)
      with assms a None b Some wa show ?thesis
        by (clarsimp simp: SignCSR_stage_def Let_def Remove_def SignCSR_tmpPaths_def)
    next
      case r2: None
      with b have wb: "wb = wa\<lparr>files := (files wa)(?C \<mapsto> b)\<rparr>" by (auto dest: WriteFile_None)
      obtain r3 wc where c: "WriteFile wb ?I c = (r3, wc)" by (cases "WriteFile wb ?I c")
      show ?thesis
      proof (cases r3)
        case (Some e3)
        with c have "wc = wb" by (auto dest: WriteFile_Some)
        with assms a None b r2 c Some wa wb show ?thesis
          by (clarsimp simp: SignCSR_stage_def Let_def Remove_def SignCSR_tmpPaths_def)
      next
        case r3: None
        with c have wc: "wc = wb\<lparr>files := (files wb)(?I \<mapsto> c)\<rparr>" by (auto dest: WriteFile_None)
        with assms a None b r2 c r3 wa wb show ?thesis
          by (clarsimp simp: SignCSR_stage_def Let_def)
      qed
    qed
  qed
qed

lemma SignCSR_reach:
  assumes "SignCSR ev w d csrPEM csrPath vd = (r, w')"
  shows "(w' = w \<and> (\<exists>e. r = Inl e))
    \<or> (\<exists>serialVal index subject nb na certDER r1 w1.
          IsInitialized w d
          \<and> ReadCounter w (filepathJoin d ''serial'') = Inr serialVal
          \<and> LoadIndex w d = Inr index
          \<and> SignCSR_stage w d (filepathJoin d (''certs/'' @ FormatSerial serialVal @ ''.pem''))
               (Bytes (FormatSerial (int64 (serialVal + 1)) @ [CHR 0x0A]))
               (PEM ''CERTIFICATE'' certDER)
               (JSONIndex (index @
                  [\<lparr>Serial = FormatSerial serialVal, Subject = subject, NotBefore = nb,
                    NotAfter = na, Status = ''active'', RevokedAt = [],
                    RevocationReason = []\<rparr>])) = (r1, w1)
          \<and> (case r1 of
                Some e \<Rightarrow> r = Inl e \<and> w' = w1
              | None \<Rightarrow>
                  (\<exists>r2. commitRenames w1
                     (SignCSR_tmpPaths d (filepathJoin d (''certs/'' @ FormatSerial serialVal @ ''.pem'')))
                     (SignCSR_commitOrder d (filepathJoin d (''certs/'' @ FormatSerial serialVal @ ''.pem'')))
                      = (r2, w')
                   \<and> (case r2 of
                         Some e \<Rightarrow> r = Inl e
                       | None \<Rightarrow> (\<exists>res. r = Inr res \<and> sr_Serial res = FormatSerial serialVal)))))"
proof (cases "w' = w \<and> (\<exists>e. r = Inl e)")
  case True
  then show ?thesis by blast
next
  case False
  note run = assms
  have init: "IsInitialized w d"
    using run False by (cases "IsInitialized w d") (auto simp: SignCSR_def)
  obtain t body where pem: "pemDecode csrPEM = Some (t, body)"
    using run False init by (cases "pemDecode csrPEM") (auto simp: SignCSR_def)
  obtain csr where csr: "body = DERRequest csr"
    using run False init pem by (cases body) (auto simp: SignCSR_def)
  have sig: "CheckSignature csr"
    using run False init pem csr by (cases "CheckSignature csr") (auto simp: SignCSR_def)
  have key: "checkKeyAlgorithm (csr_PublicKey csr) = None"
    using run False init pem csr sig
    by (cases "checkKeyAlgorithm (csr_PublicKey csr)") (auto simp: SignCSR_def)
  note pre = init pem csr sig key
  obtain caKey where caKey: "LoadPrivateKey w (filepathJoin d ''ca.key'') = Inr caKey"
    using run False pre
    by (cases "LoadPrivateKey w (filepathJoin d ''ca.key'')") (auto simp: SignCSR_def)
  obtain caCert where caCert: "LoadCertificate w (filepathJoin d ''ca.crt'') = Inr caCert"
    using run False pre caKey
    by (cases "LoadCertificate w (filepathJoin d ''ca.crt'')") (auto simp: SignCSR_def)
  obtain serialVal where serial: "ReadCounter w (filepathJoin d ''serial'') = Inr serialVal"
    using run False pre caKey caCert
    by (cases "ReadCounter w (filepathJoin d ''serial'')") (auto simp: SignCSR_def)
  obtain ski where ski: "computeSKI (csr_PublicKey csr) = Inr ski"
    using run False pre caKey caCert serial
    by (cases "computeSKI (csr_PublicKey csr)") (auto simp: SignCSR_def)
  note loaded = caKey caCert serial ski
  let ?template =
    "\<lparr>cert_SerialNumber = serialVal, cert_Subject = csr_Subject csr,
      cert_Issuer = emptyName,
      cert_NotBefore = now ev, cert_NotAfter = addDays (now ev) vd,
      cert_KeyUsage = {KeyUsageDigitalSignature}
         \<union> (if isRSA (csr_PublicKey csr) then {KeyUsageKeyEncipherment} else {}),
      cert_BasicConstraintsValid = True, cert_IsCA = False,
      cert_SubjectKeyId = ski,
      cert_AuthorityKeyId = cert_SubjectKeyId caCert,
      cert_DNSNames = csr_DNSNames csr, cert_IPAddresses = csr_IPAddresses csr,
      cert_EmailAddresses = csr_EmailAddresses csr,
      cert_SignatureAlgorithm = sigAlgorithm caKey,
      cert_PublicKey = None, cert_Signature = None\<rparr>"
  obtain certDER where
    certDER: "CreateCertificate w ?template caCert (csr_PublicKey csr) caKey = Inr certDER"
    using run False pre loaded
    by (cases "CreateCertificate w ?template caCert (csr_PublicKey csr) caKey")
       (auto simp: SignCSR_def Let_def)
  obtain index where index: "LoadIndex w d = Inr index"
    using run False pre loaded certDER
    by (cases "LoadIndex w d") (auto simp: SignCSR_def Let_def)
  let ?cf = "filepathJoin d (''certs/'' @ FormatSerial serialVal @ ''.pem'')"
  let ?entry = "\<lparr>Serial = FormatSerial serialVal, Subject = FormatDN (csr_Subject csr),
                 NotBefore = formatRFC3339 ev (now ev),
                 NotAfter = formatRFC3339 ev (addDays (now ev) vd),
                 Status = ''active'', RevokedAt = [], RevocationReason = []\<rparr>"
  obtain r1 w1 where stage:
    "SignCSR_stage w d ?cf (Bytes (FormatSerial (int64 (serialVal + 1)) @ [CHR 0x0A]))
       (PEM ''CERTIFICATE'' certDER) (JSONIndex (index @ [?entry])) = (r1, w1)"
    by (cases "SignCSR_stage w d ?cf (Bytes (FormatSerial (int64 (serialVal + 1)) @ [CHR 0x0A]))
       (PEM ''CERTIFICATE'' certDER) (JSONIndex (index @ [?entry]))")
  have rest: "case r1 of
                Some e \<Rightarrow> r = Inl e \<and> w' = w1
              | None \<Rightarrow>
                  (\<exists>r2. commitRenames w1 (SignCSR_tmpPaths d ?cf) (SignCSR_commitOrder d ?cf)
                      = (r2, w')
                   \<and> (case r2 of
                         Some e \<Rightarrow> r = Inl e
                       | None \<Rightarrow> (\<exists>res. r = Inr res \<and> sr_Serial res = FormatSerial serialVal)))"
  proof (cases r1)
    case (Some e)
    with run pre loaded certDER index stage show ?thesis
      by (auto simp: SignCSR_def Let_def)
  next
    case None
    obtain r2 w2 where commit:
      "commitRenames w1 (SignCSR_tmpPaths d ?cf) (SignCSR_commitOrder d ?cf) = (r2, w2)"
      by (cases "commitRenames w1 (SignCSR_tmpPaths d ?cf) (SignCSR_commitOrder d ?cf)")
    with run pre loaded certDER index stage None show ?thesis
      by (cases r2) (auto simp: SignCSR_def Let_def)
  qed
  from init serial index stage rest show ?thesis by blast
qed


lemma SignCSR_effect:
  assumes "SignCSR ev w d csrPEM csrPath vd = (r, w')"
  shows "dirs w' = dirs w \<and> faults w' = faults w
    \<and> (case r of
          Inl e \<Rightarrow>
            (\<forall>q. \<not> prefix (d @ ''/certs/'') q \<and> q \<noteq> filepathJoin d ''serial''
                 \<and> q \<noteq> filepathJoin d ''serial'' @ ''.tmp''
                 \<and> q \<noteq> filepathJoin d ''index.json'' @ ''.tmp'' \<longrightarrow> files w' q = files w q)
        | Inr res \<Rightarrow>
            (\<exists>serialVal index subject nb na certDER.
               ReadCounter w (filepathJoin d ''serial'') = Inr serialVal
               \<and> LoadIndex w d = Inr index
               \<and> sr_Serial res = FormatSerial serialVal
               \<and> (\<forall>q. files w' q =
                    (if q = filepathJoin d ''serial'' @ ''.tmp''
                        \<or> q = filepathJoin d (''certs/'' @ FormatSerial serialVal @ ''.pem'') @ ''.tmp''
                        \<or> q = filepathJoin d ''index.json'' @ ''.tmp'' then None
                     else if q = filepathJoin d ''serial'' then
                       Some (Bytes (FormatSerial (int64 (serialVal + 1)) @ [CHR 0x0A]))
                     else if q = filepathJoin d (''certs/'' @ FormatSerial serialVal @ ''.pem'') then
                       Some (PEM ''CERTIFICATE'' certDER)
                     else if q = filepathJoin d ''index.json'' then
                       Some (JSONIndex (index @
                         [\<lparr>Serial = FormatSerial serialVal, Subject = subject, NotBefore = nb,
                           NotAfter = na, Status = ''active'', RevokedAt = [],
                           RevocationReason = []\<rparr>]))
                     else files w q))))"
proof -
  from SignCSR_reach [OF assms]
  consider (same) e where "w' = w" "r = Inl e"
    | (mutate) serialVal index subject nb na certDER r1 w1 where
        "ReadCounter w (filepathJoin d ''serial'') = Inr serialVal"
        "LoadIndex w d = Inr index"
        "SignCSR_stage w d (filepathJoin d (''certs/'' @ FormatSerial serialVal @ ''.pem''))
               (Bytes (FormatSerial (int64 (serialVal + 1)) @ [CHR 0x0A]))
               (PEM ''CERTIFICATE'' certDER)
               (JSONIndex (index @
                  [\<lparr>Serial = FormatSerial serialVal, Subject = subject, NotBefore = nb,
                    NotAfter = na, Status = ''active'', RevokedAt = [],
                    RevocationReason = []\<rparr>])) = (r1, w1)"
        "case r1 of
                Some e \<Rightarrow> r = Inl e \<and> w' = w1
              | None \<Rightarrow>
                  (\<exists>r2. commitRenames w1
                     (SignCSR_tmpPaths d (filepathJoin d (''certs/'' @ FormatSerial serialVal @ ''.pem'')))
                     (SignCSR_commitOrder d (filepathJoin d (''certs/'' @ FormatSerial serialVal @ ''.pem'')))
                      = (r2, w')
                   \<and> (case r2 of
                         Some e \<Rightarrow> r = Inl e
                       | None \<Rightarrow> (\<exists>res. r = Inr res \<and> sr_Serial res = FormatSerial serialVal)))"
    by blast
  then show ?thesis
  proof cases
    case same
    then show ?thesis by simp
  next
    case mutate
    let ?cf = "filepathJoin d (''certs/'' @ FormatSerial serialVal @ ''.pem'')"
    let ?tmp = "SignCSR_tmpPaths d ?cf"
    let ?order = "SignCSR_commitOrder d ?cf"
    note st = SignCSR_stage_frame [OF mutate(3)]
    have certs: "prefix (d @ ''/certs/'') ?cf" "prefix (d @ ''/certs/'') (?cf @ ''.tmp'')"
      by (simp_all add: filepathJoin_def)
    show ?thesis
    proof (cases r1)
      case (Some e1)
      with mutate(4) have r: "r = Inl e1" and w': "w' = w1" by simp_all
      from st Some have "\<forall>q. files w1 q = (if q \<in> set ?tmp then None else files w q)" by simp
      with st r w' certs show ?thesis
        by (auto simp: SignCSR_tmpPaths_def)
    next
      case None
      with st have staged: "\<forall>q. files w1 q =
                     (if q = filepathJoin d ''index.json'' @ ''.tmp'' then
                        Some (JSONIndex (index @
                          [\<lparr>Serial = FormatSerial serialVal, Subject = subject, NotBefore = nb,
                            NotAfter = na, Status = ''active'', RevokedAt = [],
                            RevocationReason = []\<rparr>]))
                      else if q = ?cf @ ''.tmp'' then Some (PEM ''CERTIFICATE'' certDER)
                      else if q = filepathJoin d ''serial'' @ ''.tmp'' then
                        Some (Bytes (FormatSerial (int64 (serialVal + 1)) @ [CHR 0x0A]))
                      else files w q)"
        by simp
      from None mutate(4) obtain r2 where
        commit: "commitRenames w1 ?tmp ?order = (r2, w')"
        and r2: "case r2 of Some e \<Rightarrow> r = Inl e
                 | None \<Rightarrow> (\<exists>res. r = Inr res \<and> sr_Serial res = FormatSerial serialVal)"
        by auto
      show ?thesis
      proof (cases r2)
        case (Some e2)
        with r2 have r: "r = Inl e2" by simp
        have sub: "fst ` set ?order \<subseteq> set ?tmp"
          by (simp add: SignCSR_commitOrder_def SignCSR_tmpPaths_def Let_def)
        from commitRenames_failure [OF commit [unfolded Some] sub]
        have fr: "dirs w' = dirs w1" "faults w' = faults w1"
          "\<forall>q. q \<notin> set ?tmp \<and> q \<notin> snd ` set (butlast ?order) \<longrightarrow> files w' q = files w1 q"
          by simp_all
        have "\<forall>q. \<not> prefix (d @ ''/certs/'') q \<and> q \<noteq> filepathJoin d ''serial''
                 \<and> q \<noteq> filepathJoin d ''serial'' @ ''.tmp''
                 \<and> q \<noteq> filepathJoin d ''index.json'' @ ''.tmp'' \<longrightarrow> files w' q = files w q"
        proof (intro allI impI)
          fix q
          assume q: "\<not> prefix (d @ ''/certs/'') q \<and> q \<noteq> filepathJoin d ''serial''
                 \<and> q \<noteq> filepathJoin d ''serial'' @ ''.tmp''
                 \<and> q \<noteq> filepathJoin d ''index.json'' @ ''.tmp''"
          with certs have ne: "q \<noteq> ?cf" "q \<noteq> ?cf @ ''.tmp''" by auto
          with q have "q \<notin> set ?tmp \<and> q \<notin> snd ` set (butlast ?order)"
            by (simp add: SignCSR_commitOrder_def SignCSR_tmpPaths_def Let_def)
          with fr have "files w' q = files w1 q" by blast
          also from staged q ne have "files w1 q = files w q" by simp
          finally show "files w' q = files w q" .
        qed
        with fr st r show ?thesis by simp
      next
        case r2None: None
        with r2 obtain res where res: "r = Inr res" "sr_Serial res = FormatSerial serialVal"
          by auto
        have dist: "distinct (map fst ?order)" "distinct (map snd ?order)"
          "fst ` set ?order \<inter> snd ` set ?order = {}"
          by (simp_all add: SignCSR_commitOrder_def filepathJoin_def Let_def)
        from commitRenames_success [OF commit [unfolded r2None] dist]
        have fr: "dirs w' = dirs w1" "faults w' = faults w1"
          and fs: "\<And>q. files w' q =
           (if q \<in> fst ` set ?order then None
            else (case map_of (map (\<lambda>(t, f). (f, t)) ?order) q of
                    Some t \<Rightarrow> files w1 t
                  | None \<Rightarrow> files w1 q))"
          by simp_all
        have "\<forall>q. files w' q =
                    (if q = filepathJoin d ''serial'' @ ''.tmp''
                        \<or> q = ?cf @ ''.tmp''
                        \<or> q = filepathJoin d ''index.json'' @ ''.tmp'' then None
                     else if q = filepathJoin d ''serial'' then
                       Some (Bytes (FormatSerial (int64 (serialVal + 1)) @ [CHR 0x0A]))
                     else if q = ?cf then Some (PEM ''CERTIFICATE'' certDER)
                     else if q = filepathJoin d ''index.json'' then
                       Some (JSONIndex (index @
                         [\<lparr>Serial = FormatSerial serialVal, Subject = subject, NotBefore = nb,
                           NotAfter = na, Status = ''active'', RevokedAt = [],
                           RevocationReason = []\<rparr>]))
                     else files w q)"
        proof
          fix q
          show "files w' q =
                    (if q = filepathJoin d ''serial'' @ ''.tmp''
                        \<or> q = ?cf @ ''.tmp''
                        \<or> q = filepathJoin d ''index.json'' @ ''.tmp'' then None
                     else if q = filepathJoin d ''serial'' then
                       Some (Bytes (FormatSerial (int64 (serialVal + 1)) @ [CHR 0x0A]))
                     else if q = ?cf then Some (PEM ''CERTIFICATE'' certDER)
                     else if q = filepathJoin d ''index.json'' then
                       Some (JSONIndex (index @
                         [\<lparr>Serial = FormatSerial serialVal, Subject = subject, NotBefore = nb,
                           NotAfter = na, Status = ''active'', RevokedAt = [],
                           RevocationReason = []\<rparr>]))
                     else files w q)"
            unfolding fs [of q] using staged
            by (simp add: SignCSR_commitOrder_def filepathJoin_def Let_def)
        qed
        with fr st res mutate(1,2) show ?thesis by auto
      qed
    qed
  qed
qed


lemma sameOutside_refl: "sameOutside P w w"
  by (simp add: sameOutside_def)

lemma sameOutside_WriteFile:
  "WriteFile w1 p x = (r, w2) \<Longrightarrow> sameOutside P w w1 \<Longrightarrow> p \<in> P \<Longrightarrow> sameOutside P w w2"
  by (auto simp: WriteFile_def sameOutside_def split: if_splits)

lemma sameOutside_Rename:
  "Rename w1 a b = (r, w2) \<Longrightarrow> sameOutside P w w1 \<Longrightarrow> a \<in> P \<Longrightarrow> b \<in> P \<Longrightarrow> sameOutside P w w2"
  by (auto simp: Rename_def sameOutside_def split: if_splits option.splits)

lemma sameOutside_Remove:
  "sameOutside P w w1 \<Longrightarrow> p \<in> P \<Longrightarrow> sameOutside P w (Remove w1 p)"
  by (auto simp: Remove_def sameOutside_def)

lemma sameOutside_cleanup:
  "sameOutside P w w1 \<Longrightarrow> set ps \<subseteq> P \<Longrightarrow> sameOutside P w (cleanupTempFiles w1 ps)"
  by (auto simp: cleanupTempFiles_frame sameOutside_def)

lemma sameOutside_commitRenames:
  "commitRenames w1 tmp order = (r, w2) \<Longrightarrow> sameOutside P w w1 \<Longrightarrow> set tmp \<subseteq> P
     \<Longrightarrow> fst ` set order \<subseteq> P \<Longrightarrow> snd ` set order \<subseteq> P \<Longrightarrow> sameOutside P w w2"
proof (induction order arbitrary: w1)
  case Nil
  then show ?case by simp
next
  case (Cons c cs)
  obtain a b where c: "c = (a, b)" by (cases c)
  obtain r1 wa where rn: "Rename w1 a b = (r1, wa)" by (cases "Rename w1 a b")
  from Cons.prems c have ab: "a \<in> P" "b \<in> P" by auto
  from sameOutside_Rename [OF rn Cons.prems(2) ab] have wa: "sameOutside P w wa" .
  show ?case
  proof (cases r1)
    case None
    with Cons.prems c rn have "commitRenames wa tmp cs = (r, w2)" by simp
    from Cons.IH [OF this wa] Cons.prems show ?thesis by auto
  next
    case (Some e)
    with Cons.prems c rn have "w2 = cleanupTempFiles wa tmp" by simp
    with wa Cons.prems(3) show ?thesis by (simp add: sameOutside_cleanup)
  qed
qed

lemma GenerateCRL_frame:
  assumes "GenerateCRL ev w d h = (r, w')"
  shows "sameOutside {filepathJoin d ''ca.crl'', filepathJoin d ''ca.crl'' @ ''.tmp'',
            filepathJoin d ''crlnumber'', filepathJoin d ''crlnumber'' @ ''.tmp''} w w'"
    (is "sameOutside ?P w w'")
proof (cases "w' = w")
  case True
  then show ?thesis by (simp add: sameOutside_refl)
next
  case False
  note run = assms
  have init: "IsInitialized w d"
    using run False by (cases "IsInitialized w d") (auto simp: GenerateCRL_def)
  obtain caKey where caKey: "LoadPrivateKey w (filepathJoin d ''ca.key'') = Inr caKey"
    using run False init
    by (cases "LoadPrivateKey w (filepathJoin d ''ca.key'')") (auto simp: GenerateCRL_def Let_def)
  obtain caCert where caCert: "LoadCertificate w (filepathJoin d ''ca.crt'') = Inr caCert"
    using run False init caKey
    by (cases "LoadCertificate w (filepathJoin d ''ca.crt'')") (auto simp: GenerateCRL_def Let_def)
  obtain index where index: "LoadIndex w d = Inr index"
    using run False init caKey caCert
    by (cases "LoadIndex w d") (auto simp: GenerateCRL_def Let_def)
  obtain crlNumber where num: "ReadCounter w (filepathJoin d ''crlnumber'') = Inr crlNumber"
    using run False init caKey caCert index
    by (cases "ReadCounter w (filepathJoin d ''crlnumber'')") (auto simp: GenerateCRL_def Let_def)
  obtain entries where entries: "revokedEntries ev index = Inr entries"
    using run False init caKey caCert index num
    by (cases "revokedEntries ev index") (auto simp: GenerateCRL_def Let_def)
  note pre = init caKey caCert index num entries
  let ?template =
    "\<lparr>crl_RevokedCertificateEntries = entries, crl_Number = crlNumber,
      crl_ThisUpdate = now ev, crl_NextUpdate = now ev + int64 (h * 3600000000000),
      crl_AuthorityKeyId = cert_SubjectKeyId caCert, crl_Signature = None\<rparr>"
  obtain crlDER where crlDER: "CreateRevocationList w ?template caCert caKey = Inr crlDER"
    using run False pre
    by (cases "CreateRevocationList w ?template caCert caKey") (auto simp: GenerateCRL_def Let_def)
  let ?tmp = "GenerateCRL_tmpPaths d"
  have tmp: "set ?tmp \<subseteq> ?P" by (simp add: GenerateCRL_tmpPaths_def)
  have order: "fst ` set (GenerateCRL_commitOrder d) \<subseteq> ?P"
    "snd ` set (GenerateCRL_commitOrder d) \<subseteq> ?P"
    by (simp_all add: GenerateCRL_commitOrder_def Let_def)
  obtain r1 w1 where
    a: "WriteFile w (filepathJoin d ''ca.crl'' @ ''.tmp'') (PEM ''X509 CRL'' crlDER) = (r1, w1)"
    by (cases "WriteFile w (filepathJoin d ''ca.crl'' @ ''.tmp'') (PEM ''X509 CRL'' crlDER)")
  from sameOutside_WriteFile [OF a sameOutside_refl] have w1: "sameOutside ?P w w1" by simp
  show ?thesis
  proof (cases r1)
    case (Some e)
    with run pre crlDER a have "w' = cleanupTempFiles w1 ?tmp"
      by (simp add: GenerateCRL_def Let_def)
    with w1 tmp show ?thesis by (simp add: sameOutside_cleanup)
  next
    case None
    obtain r2 w2 where
      b: "WriteFile w1 (filepathJoin d ''crlnumber'' @ ''.tmp'')
            (Bytes (FormatSerial (int64 (crlNumber + 1)) @ [CHR 0x0A])) = (r2, w2)"
      by (cases "WriteFile w1 (filepathJoin d ''crlnumber'' @ ''.tmp'')
            (Bytes (FormatSerial (int64 (crlNumber + 1)) @ [CHR 0x0A]))")
    from sameOutside_WriteFile [OF b w1] have w2: "sameOutside ?P w w2" by simp
    show ?thesis
    proof (cases r2)
      case (Some e)
      with run pre crlDER a None b have "w' = cleanupTempFiles w2 ?tmp"
        by (simp add: GenerateCRL_def Let_def)
      with w2 tmp show ?thesis by (simp add: sameOutside_cleanup)
    next
      case r2: None
      obtain r3 w3 where c: "commitRenames w2 ?tmp (GenerateCRL_commitOrder d) = (r3, w3)"
        by (cases "commitRenames w2 ?tmp (GenerateCRL_commitOrder d)")
      with run pre crlDER a None b r2 have "w' = w3"
        by (cases r3) (simp_all add: GenerateCRL_def Let_def)
      with sameOutside_commitRenames [OF c w2 tmp order] show ?thesis by simp
    qed
  qed
qed

lemma writeFileAtomic_effect:
  assumes "writeFileAtomic w p x = (r, w')"
  shows "sameOutside {p, p @ ''.tmp''} w w'
     \<and> (case r of None \<Rightarrow> files w' p = Some x | Some e \<Rightarrow> files w' p = files w p)"
  using assms
  by (auto simp: writeFileAtomic_def Let_def WriteFile_def Rename_def Remove_def sameOutside_def
      split: if_splits)

lemma findSerial_bound:
  "0 \<le> findSerial index s \<Longrightarrow> nat (findSerial index s) < length index"
  by (induction index) (auto simp: Let_def nat_add_distrib split: if_splits)

lemma RevokeCert_effect:
  assumes "RevokeCert ev w d s reason = (r, w')"
  shows "sameOutside {filepathJoin d ''index.json'', filepathJoin d ''index.json'' @ ''.tmp''} w w'
     \<and> (files w' (filepathJoin d ''index.json'') = files w (filepathJoin d ''index.json'')
        \<or> (\<exists>index i entry. LoadIndex w d = Inr index \<and> i < length index
              \<and> Status (index ! i) \<noteq> ''revoked''
              \<and> files w' (filepathJoin d ''index.json'') = Some (JSONIndex (index[i := entry]))))"
proof (cases "w' = w")
  case True
  then show ?thesis by (simp add: sameOutside_refl)
next
  case False
  have init: "IsInitialized w d"
    using assms False by (cases "IsInitialized w d") (auto simp: RevokeCert_def)
  obtain index where index: "LoadIndex w d = Inr index"
    using assms False init by (cases "LoadIndex w d") (auto simp: RevokeCert_def)
  have found: "0 \<le> findSerial index s"
    using assms False init index by (cases "0 \<le> findSerial index s") (auto simp: RevokeCert_def)
  have active: "Status (index ! nat (findSerial index s)) \<noteq> ''revoked''"
    using assms False init index found
    by (cases "Status (index ! nat (findSerial index s)) = ''revoked''")
       (auto simp: RevokeCert_def Let_def)
  let ?index' = "index[nat (findSerial index s) :=
                     (index ! nat (findSerial index s))\<lparr>Status := ''revoked'',
                        RevokedAt := formatRFC3339 ev (now ev), RevocationReason := reason\<rparr>]"
  obtain r1 w1 where
    save: "writeFileAtomic w (filepathJoin d ''index.json'') (JSONIndex ?index') = (r1, w1)"
    by (cases "writeFileAtomic w (filepathJoin d ''index.json'') (JSONIndex ?index')")
  with assms init index found active have w': "w' = w1"
    by (cases r1) (auto simp: RevokeCert_def Let_def SaveIndex_def)
  from writeFileAtomic_effect [OF save] w' index active findSerial_bound [OF found]
  show ?thesis by (cases r1) auto
qed


lemma LoadIndex_Inr:
  "LoadIndex w d = Inr index \<longleftrightarrow>
     OpRead (filepathJoin d ''index.json'') \<notin> faults w
     \<and> files w (filepathJoin d ''index.json'') = Some (JSONIndex index)"
  by (auto simp: LoadIndex_def ReadFile_def Let_def split: option.splits content.splits)

lemma IsInitialized_cong:
  "dirs w' = dirs w \<Longrightarrow> files w' (filepathJoin d ''ca.key'') = files w (filepathJoin d ''ca.key'')
     \<Longrightarrow> files w' (filepathJoin d ''ca.crt'') = files w (filepathJoin d ''ca.crt'')
     \<Longrightarrow> IsInitialized w' d = IsInitialized w d"
  by (simp add: IsInitialized_def Stat_def)

lemma perform_keeps:
  assumes init: "IsInitialized w d" and index: "LoadIndex w d = Inr index"
  shows "IsInitialized (perform w d step) d
     \<and> (\<exists>index'. LoadIndex (perform w d step) d = Inr index' \<and> length index \<le> length index'
          \<and> (\<forall>i<length index. Status (index ! i) = ''revoked'' \<longrightarrow> index' ! i = index ! i))"
proof -
  obtain ev op where step: "step = (ev, op)" by (cases step)
  from index have nofault: "OpRead (filepathJoin d ''index.json'') \<notin> faults w"
    and indexFile: "files w (filepathJoin d ''index.json'') = Some (JSONIndex index)"
    by (simp_all add: LoadIndex_Inr)
  show ?thesis
  proof (cases op)
    case (DoInitCA subject keyAlgo validityDays)
    with step init index show ?thesis by (simp add: InitCA_def)
  next
    case (DoSignCSR csrPEM csrPath validityDays)
    obtain r w' where run: "SignCSR ev w d csrPEM csrPath validityDays = (r, w')"
      by (cases "SignCSR ev w d csrPEM csrPath validityDays")
    with step DoSignCSR have w': "perform w d step = w'" by simp
    note eff = SignCSR_effect [OF run]
    show ?thesis
    proof (cases r)
      case (Inl e)
      with eff have same: "dirs w' = dirs w" "faults w' = faults w"
        "\<And>q. \<not> prefix (d @ ''/certs/'') q \<Longrightarrow> q \<noteq> filepathJoin d ''serial''
                 \<Longrightarrow> q \<noteq> filepathJoin d ''serial'' @ ''.tmp''
                 \<Longrightarrow> q \<noteq> filepathJoin d ''index.json'' @ ''.tmp'' \<Longrightarrow> files w' q = files w q"
        by simp_all
      have k: "files w' (filepathJoin d ''ca.key'') = files w (filepathJoin d ''ca.key'')"
        by (rule same(3)) (simp_all add: filepathJoin_def)
      have c: "files w' (filepathJoin d ''ca.crt'') = files w (filepathJoin d ''ca.crt'')"
        by (rule same(3)) (simp_all add: filepathJoin_def)
      have i: "files w' (filepathJoin d ''index.json'') = files w (filepathJoin d ''index.json'')"
        by (rule same(3)) (simp_all add: filepathJoin_def)
      from IsInitialized_cong [OF same(1) k c] init have "IsInitialized w' d" by simp
      moreover from i indexFile nofault same(2) have "LoadIndex w' d = Inr index"
        by (simp add: LoadIndex_Inr)
      ultimately show ?thesis unfolding w' by auto
    next
      case (Inr res)
      with eff index obtain serialVal subject nb na certDER where
        same: "dirs w' = dirs w" "faults w' = faults w"
        and fs: "\<And>q. files w' q =
                    (if q = filepathJoin d ''serial'' @ ''.tmp''
                        \<or> q = filepathJoin d (''certs/'' @ FormatSerial serialVal @ ''.pem'') @ ''.tmp''
                        \<or> q = filepathJoin d ''index.json'' @ ''.tmp'' then None
                     else if q = filepathJoin d ''serial'' then
                       Some (Bytes (FormatSerial (int64 (serialVal + 1)) @ [CHR 0x0A]))
                     else if q = filepathJoin d (''certs/'' @ FormatSerial serialVal @ ''.pem'') then
                       Some (PEM ''CERTIFICATE'' certDER)
                     else if q = filepathJoin d ''index.json'' then
                       Some (JSONIndex (index @
                         [\<lparr>Serial = FormatSerial serialVal, Subject = subject, NotBefore = nb,
                           NotAfter = na, Status = ''active'', RevokedAt = [],
                           RevocationReason = []\<rparr>]))
                     else files w q)"
        by auto
      have k: "files w' (filepathJoin d ''ca.key'') = files w (filepathJoin d ''ca.key'')"
        unfolding fs by (simp add: filepathJoin_def)
      have c: "files w' (filepathJoin d ''ca.crt'') = files w (filepathJoin d ''ca.crt'')"
        unfolding fs by (simp add: filepathJoin_def)
      have i: "files w' (filepathJoin d ''index.json'') =
                 Some (JSONIndex (index @
                         [\<lparr>Serial = FormatSerial serialVal, Subject = subject, NotBefore = nb,
                           NotAfter = na, Status = ''active'', RevokedAt = [],
                           RevocationReason = []\<rparr>]))"
        unfolding fs by (simp add: filepathJoin_def)
      from IsInitialized_cong [OF same(1) k c] init have "IsInitialized w' d" by simp
      moreover from i nofault same(2) have "LoadIndex w' d = Inr (index @
                         [\<lparr>Serial = FormatSerial serialVal, Subject = subject, NotBefore = nb,
                           NotAfter = na, Status = ''active'', RevokedAt = [],
                           RevocationReason = []\<rparr>])"
        by (simp add: LoadIndex_Inr)
      ultimately show ?thesis unfolding w' by (auto simp: nth_append)
    qed
  next
    case (DoRevokeCert serialHex reason)
    obtain r w' where run: "RevokeCert ev w d serialHex reason = (r, w')"
      by (cases "RevokeCert ev w d serialHex reason")
    with step DoRevokeCert have w': "perform w d step = w'" by simp
    from RevokeCert_effect [OF run]
    have same: "dirs w' = dirs w" "faults w' = faults w"
      "\<And>q. q \<noteq> filepathJoin d ''index.json'' \<Longrightarrow> q \<noteq> filepathJoin d ''index.json'' @ ''.tmp''
          \<Longrightarrow> files w' q = files w q"
      and new: "files w' (filepathJoin d ''index.json'') = files w (filepathJoin d ''index.json'')
        \<or> (\<exists>index i entry. LoadIndex w d = Inr index \<and> i < length index
              \<and> Status (index ! i) \<noteq> ''revoked''
              \<and> files w' (filepathJoin d ''index.json'') = Some (JSONIndex (index[i := entry])))"
      by (simp_all add: sameOutside_def)
    have k: "files w' (filepathJoin d ''ca.key'') = files w (filepathJoin d ''ca.key'')"
      by (rule same(3)) (simp_all add: filepathJoin_def)
    have c: "files w' (filepathJoin d ''ca.crt'') = files w (filepathJoin d ''ca.crt'')"
      by (rule same(3)) (simp_all add: filepathJoin_def)
    from IsInitialized_cong [OF same(1) k c] init have i': "IsInitialized w' d" by simp
    from new show ?thesis
    proof
      assume "files w' (filepathJoin d ''index.json'') = files w (filepathJoin d ''index.json'')"
      with indexFile nofault same(2) have "LoadIndex w' d = Inr index" by (simp add: LoadIndex_Inr)
      with i' show ?thesis unfolding w' by auto
    next
      assume "\<exists>index i entry. LoadIndex w d = Inr index \<and> i < length index
              \<and> Status (index ! i) \<noteq> ''revoked''
              \<and> files w' (filepathJoin d ''index.json'') = Some (JSONIndex (index[i := entry]))"
      with index obtain i entry where i: "i < length index" "Status (index ! i) \<noteq> ''revoked''"
        "files w' (filepathJoin d ''index.json'') = Some (JSONIndex (index[i := entry]))"
        by auto
      with nofault same(2) have "LoadIndex w' d = Inr (index[i := entry])"
        by (simp add: LoadIndex_Inr)
      moreover have "\<forall>j<length index. Status (index ! j) = ''revoked''
                      \<longrightarrow> (index[i := entry]) ! j = index ! j"
      proof (intro allI impI)
        fix j assume "j < length index" "Status (index ! j) = ''revoked''"
        with i(2) have "j \<noteq> i" by auto
        then show "(index[i := entry]) ! j = index ! j" by simp
      qed
      ultimately show ?thesis using i' unfolding w' by auto
    qed
  next
    case (DoGenerateCRL nextUpdateHours)
    obtain r w' where run: "GenerateCRL ev w d nextUpdateHours = (r, w')"
      by (cases "GenerateCRL ev w d nextUpdateHours")
    with step DoGenerateCRL have w': "perform w d step = w'" by simp
    from GenerateCRL_frame [OF run]
    have same: "dirs w' = dirs w" "faults w' = faults w"
      "\<And>q. q \<noteq> filepathJoin d ''ca.crl'' \<Longrightarrow> q \<noteq> filepathJoin d ''ca.crl'' @ ''.tmp''
          \<Longrightarrow> q \<noteq> filepathJoin d ''crlnumber'' \<Longrightarrow> q \<noteq> filepathJoin d ''crlnumber'' @ ''.tmp''
          \<Longrightarrow> files w' q = files w q"
      by (simp_all add: sameOutside_def)
    have k: "files w' (filepathJoin d ''ca.key'') = files w (filepathJoin d ''ca.key'')"
      by (rule same(3)) (simp_all add: filepathJoin_def)
    have c: "files w' (filepathJoin d ''ca.crt'') = files w (filepathJoin d ''ca.crt'')"
      by (rule same(3)) (simp_all add: filepathJoin_def)
    have i: "files w' (filepathJoin d ''index.json'') = files w (filepathJoin d ''index.json'')"
      by (rule same(3)) (simp_all add: filepathJoin_def)
    from IsInitialized_cong [OF same(1) k c] init have "IsInitialized w' d" by simp
    moreover from i indexFile nofault same(2) have "LoadIndex w' d = Inr index"
      by (simp add: LoadIndex_Inr)
    ultimately show ?thesis unfolding w' by auto
  qed
qed

lemma performAll_keeps:
  assumes "IsInitialized w d" and "LoadIndex w d = Inr index"
  shows "\<exists>index'. LoadIndex (performAll w d steps) d = Inr index' \<and> length index \<le> length index'
          \<and> (\<forall>i<length index. Status (index ! i) = ''revoked'' \<longrightarrow> index' ! i = index ! i)"
  using assms
proof (induction steps arbitrary: w index)
  case Nil
  then show ?case by simp
next
  case (Cons step steps)
  from perform_keeps [OF Cons.prems, of step] obtain index1 where
    one: "IsInitialized (perform w d step) d" "LoadIndex (perform w d step) d = Inr index1"
      "length index \<le> length index1"
      "\<forall>i<length index. Status (index ! i) = ''revoked'' \<longrightarrow> index1 ! i = index ! i"
    by blast
  from Cons.IH [OF one(1,2)] obtain index' where
    rest: "LoadIndex (performAll (perform w d step) d steps) d = Inr index'"
      "length index1 \<le> length index'"
      "\<forall>i<length index1. Status (index1 ! i) = ''revoked'' \<longrightarrow> index' ! i = index1 ! i"
    by blast
  have "\<forall>i<length index. Status (index ! i) = ''revoked'' \<longrightarrow> index' ! i = index ! i"
  proof (intro allI impI)
    fix i assume i: "i < length index" "Status (index ! i) = ''revoked''"
    with one have "index1 ! i = index ! i" "i < length index1" by auto
    with rest i show "index' ! i = index ! i" by auto
  qed
  with rest one show ?case by auto
qed


lemma findSerial_first:
  "i < length index \<Longrightarrow> Serial (index ! i) = s \<Longrightarrow> \<forall>j<i. Serial (index ! j) \<noteq> s
     \<Longrightarrow> findSerial index s = int i"
proof (induction index arbitrary: i)
  case Nil
  then show ?case by simp
next
  case (Cons e es)
  show ?case
  proof (cases i)
    case 0
    with Cons.prems show ?thesis by simp
  next
    case (Suc k)
    with Cons.prems have "Serial e \<noteq> s" by auto
    moreover from Cons.prems Suc have "findSerial es s = int k"
      by (intro Cons.IH) auto
    ultimately show ?thesis using Suc by (simp add: Let_def)
  qed
qed

text \<open>
  C7. In an initialized directory, after any sequence of \<^verbatim>\<open>InitCA\<close>, \<^verbatim>\<open>SignCSR\<close>,
  \<^verbatim>\<open>RevokeCert\<close> and \<^verbatim>\<open>GenerateCRL\<close> calls, whether they succeed or fail, every index entry
  that was revoked is still in the index at its position and is unchanged: its status is
  still \<^verbatim>\<open>revoked\<close> and its \<^verbatim>\<open>revoked_at\<close> and \<^verbatim>\<open>revocation_reason\<close> are what they were.
  \<^verbatim>\<open>RevokeCert\<close> on a serial whose (first) entry is revoked fails with the message
  \<^verbatim>\<open>certificate with serial <s> is already revoked\<close> (behind the prefix \<^verbatim>\<open>Error: \<close>), on a
  serial that no entry carries with the not-found message, and in both cases returns the
  file system it was given.
\<close>

theorem revoked_entries_stay_revoked:
  assumes "IsInitialized w dataDir" and "LoadIndex w dataDir = Inr index"
  shows "(\<exists>index'. LoadIndex (performAll w dataDir steps) dataDir = Inr index'
            \<and> (\<forall>i<length index. Status (index ! i) = ''revoked''
                  \<longrightarrow> i < length index' \<and> index' ! i = index ! i))
     \<and> (serialHex \<notin> Serial ` set index \<longrightarrow>
          RevokeCert ev w dataDir serialHex reason
            = (Some (Errorf (''Error: '' @ ''certificate with serial '' @ serialHex
                              @ '' not found'')), w))
     \<and> (\<forall>i<length index. Serial (index ! i) = serialHex
            \<and> (\<forall>j<i. Serial (index ! j) \<noteq> serialHex) \<and> Status (index ! i) = ''revoked'' \<longrightarrow>
          RevokeCert ev w dataDir serialHex reason
            = (Some (Errorf (''Error: '' @ ''certificate with serial '' @ serialHex
                              @ '' is already revoked'')), w))"
proof (intro conjI)
  from performAll_keeps [OF assms, of steps]
  show "\<exists>index'. LoadIndex (performAll w dataDir steps) dataDir = Inr index'
            \<and> (\<forall>i<length index. Status (index ! i) = ''revoked''
                  \<longrightarrow> i < length index' \<and> index' ! i = index ! i)"
    by fastforce
  show "serialHex \<notin> Serial ` set index \<longrightarrow>
          RevokeCert ev w dataDir serialHex reason
            = (Some (Errorf (''Error: '' @ ''certificate with serial '' @ serialHex
                              @ '' not found'')), w)"
    using assms by (simp add: RevokeCert_def findSerial_absent)
  show "\<forall>i<length index. Serial (index ! i) = serialHex
            \<and> (\<forall>j<i. Serial (index ! j) \<noteq> serialHex) \<and> Status (index ! i) = ''revoked'' \<longrightarrow>
          RevokeCert ev w dataDir serialHex reason
            = (Some (Errorf (''Error: '' @ ''certificate with serial '' @ serialHex
                              @ '' is already revoked'')), w)"
  proof (intro allI impI)
    fix i
    assume i: "i < length index"
      and "Serial (index ! i) = serialHex
            \<and> (\<forall>j<i. Serial (index ! j) \<noteq> serialHex) \<and> Status (index ! i) = ''revoked''"
    then have "findSerial index serialHex = int i" "Status (index ! i) = ''revoked''"
      by (simp_all add: findSerial_first)
    with assms show "RevokeCert ev w dataDir serialHex reason
            = (Some (Errorf (''Error: '' @ ''certificate with serial '' @ serialHex
                              @ '' is already revoked'')), w)"
      by (simp add: RevokeCert_def)
  qed
qed

theorem revoked_entries_stay_revoked_witness:
  "(\<exists>index'. LoadIndex
        (performAll exampleIssuedWorld ''ca-data''
           [(exampleEnv, DoRevokeCert ''03'' ''superseded''),
            (exampleEnv, DoRevokeCert ''02'' ''keyCompromise''),
            (exampleEnv, DoGenerateCRL 24)]) ''ca-data'' = Inr index'
      \<and> 1 < length index' \<and> index' ! 1 = exampleIndex ! 1)
   \<and> RevokeCert exampleEnv exampleIssuedWorld ''ca-data'' ''0a'' ''unspecified''
       = (Some (Errorf ''Error: certificate with serial 0a not found''), exampleIssuedWorld)
   \<and> RevokeCert exampleEnv exampleIssuedWorld ''ca-data'' ''03'' ''superseded''
       = (Some (Errorf ''Error: certificate with serial 03 is already revoked''),
          exampleIssuedWorld)"
proof -
  have init: "IsInitialized exampleIssuedWorld ''ca-data''"
    by (simp add: store_defs exampleIssuedWorld_def exampleWorld_def)
  have idx: "LoadIndex exampleIssuedWorld ''ca-data'' = Inr exampleIndex"
    by (simp add: store_defs exampleIssuedWorld_def exampleWorld_def)
  note inst = revoked_entries_stay_revoked [OF init idx,
      where steps = "[(exampleEnv, DoRevokeCert ''03'' ''superseded''),
            (exampleEnv, DoRevokeCert ''02'' ''keyCompromise''),
            (exampleEnv, DoGenerateCRL 24)]" and ev = exampleEnv]
  have len: "1 < length exampleIndex" and st: "Status (exampleIndex ! 1) = ''revoked''"
    by (simp_all add: exampleIndex_def)
  from inst [of "''0a''" "''unspecified''"] len st
  have a: "\<exists>index'. LoadIndex
        (performAll exampleIssuedWorld ''ca-data''
           [(exampleEnv, DoRevokeCert ''03'' ''superseded''),
            (exampleEnv, DoRevokeCert ''02'' ''keyCompromise''),
            (exampleEnv, DoGenerateCRL 24)]) ''ca-data'' = Inr index'
      \<and> 1 < length index' \<and> index' ! 1 = exampleIndex ! 1"
    by blast
  have absent: "''0a'' \<notin> Serial ` set exampleIndex" by (simp add: exampleIndex_def)
  with inst [of "''0a''" "''unspecified''"]
  have b: "RevokeCert exampleEnv exampleIssuedWorld ''ca-data'' ''0a'' ''unspecified''
       = (Some (Errorf ''Error: certificate with serial 0a not found''), exampleIssuedWorld)"
    by simp
  have first: "Serial (exampleIndex ! 1) = ''03''
       \<and> (\<forall>j<1. Serial (exampleIndex ! j) \<noteq> ''03'') \<and> Status (exampleIndex ! 1) = ''revoked''"
    by (simp add: exampleIndex_def)
  with inst [of "''03''" "''superseded''"] len
  have c: "RevokeCert exampleEnv exampleIssuedWorld ''ca-data'' ''03'' ''superseded''
       = (Some (Errorf ''Error: certificate with serial 03 is already revoked''),
          exampleIssuedWorld)"
    by simp
  from a b c show ?thesis by blast
qed

end
